theory Spec2Isabelle
  imports Main
begin

section \<open>Backported translation template tags: data model\<close>

text \<open>
  A shallow embedding of \<^verbatim>\<open>privex/adminplus/backports/templatetags/blocktranslate.py\<close>:
  the render methods of \<^verbatim>\<open>TranslateNode\<close> and \<^verbatim>\<open>BlockTranslateNode\<close>, and the
  compile function \<^verbatim>\<open>do_block_translate\<close>.

  The module is a shim over the template engine and the translation machinery of the host
  framework. What the framework supplies (filter expressions and their resolution, the
  rendering of a value in a context, the message catalog, Python's \<^verbatim>\<open>%\<close> operator,
  \<^verbatim>\<open>token_kwargs\<close>, \<^verbatim>\<open>split_contents\<close>) is not code of the module; it enters the
  model as the fields of two records of collaborators, \<open>engine\<close> for render time and
  \<open>compiler\<close> for compile time. Every theorem about the module's own code is stated for
  arbitrary collaborators unless it says otherwise.
\<close>

subsection \<open>Values, tokens, errors\<close>

text \<open>Template text values: a plain \<^verbatim>\<open>str\<close> or a \<^verbatim>\<open>SafeString\<close> (an instance of
  \<^verbatim>\<open>SafeData\<close>).\<close>

datatype pystr = Str string | SafeString string

fun chars :: "pystr \<Rightarrow> string" where
  "chars (Str s) = s"
| "chars (SafeString s) = s"



text \<open>The Python values that flow through a template context.\<close>

datatype pyval = PyText pystr | PyInt int | PyNone

text \<open>Python truthiness, as the \<^verbatim>\<open>if x:\<close> tests of the module read it.\<close>

fun truthy :: "pyval \<Rightarrow> bool" where
  "truthy (PyText t) = (chars t \<noteq> [])"
| "truthy (PyInt n) = (n \<noteq> 0)"
| "truthy PyNone = False"

text \<open>An optional string attribute (\<^verbatim>\<open>asvar\<close>, \<^verbatim>\<open>countervar\<close>): \<^verbatim>\<open>None\<close> and the
  empty string are both false.\<close>

fun truthy_name :: "string option \<Rightarrow> bool" where
  "truthy_name None = False"
| "truthy_name (Some n) = (n \<noteq> [])"

datatype token_type = TEXT | VAR | BLOCK | COMMENT

record token =
  token_type :: token_type
  contents :: string

text \<open>A compiled filter expression is opaque to the module: it is only ever resolved
  against a context by the engine. The model keeps its source text.\<close>

datatype filter_expression = FilterExpression string

type_synonym kwargs = "(string \<times> filter_expression) list"

text \<open>The messages of the \<^verbatim>\<open>TemplateSyntaxError\<close>s the module raises, one constructor per
  \<^verbatim>\<open>raise\<close> statement, carrying the values interpolated into the message.\<close>

datatype syntax_message =
    OptionTwice string
  | WithNeedsKeyword string
  | CountNeedsOneKeyword string
  | ContextNeedsArgument string
  | AsvarNoArgument string
  | UnknownArgument string string
  | NoOtherBlockTags string
  | NoOtherBlockTagsSeen string string
  | UnableToFormat string string "string \<rightharpoonup> string"

datatype error =
    TemplateSyntaxError syntax_message
  | KeyError string
  | ValueError
  | TypeError
  | IndexError
  | ContextPopException
  | OutsideFragment
  | Raised string

text \<open>The two exception classes that the \<^verbatim>\<open>except (KeyError, ValueError)\<close> clause of
  \<^verbatim>\<open>BlockTranslateNode.render\<close> catches.\<close>

fun caught :: "error \<Rightarrow> bool" where
  "caught (KeyError k) = True"
| "caught ValueError = True"
| "caught e = False"

subsection \<open>The template context\<close>

text \<open>
  The framework's \<^verbatim>\<open>Context\<close> is a stack of dictionaries. The head of the list is the top
  of the stack (\<^verbatim>\<open>dicts[-1]\<close>). \<^verbatim>\<open>update\<close> pushes a dictionary, \<^verbatim>\<open>pop\<close> removes the top
  one and refuses to remove the last, \<^verbatim>\<open>context[k] = v\<close> writes into the top dictionary,
  \<^verbatim>\<open>k in context\<close> and \<^verbatim>\<open>context[k]\<close> search from the top down.
\<close>

type_synonym pydict = "string \<rightharpoonup> pyval"

type_synonym template_context = "pydict list"

definition context_update :: "pydict \<Rightarrow> template_context \<Rightarrow> template_context" where
  "context_update d c = d # c"

fun ctx_pop :: "template_context \<Rightarrow> error + (pydict \<times> template_context)" where
  "ctx_pop [] = Inl IndexError"
| "ctx_pop [d] = Inl ContextPopException"
| "ctx_pop (d # c) = Inr (d, c)"

fun ctx_setitem :: "string \<Rightarrow> pyval \<Rightarrow> template_context \<Rightarrow> error + template_context" where
  "ctx_setitem k v [] = Inl IndexError"
| "ctx_setitem k v (d # c) = Inr (d(k \<mapsto> v) # c)"

fun ctx_contains :: "string \<Rightarrow> template_context \<Rightarrow> bool" where
  "ctx_contains k [] = False"
| "ctx_contains k (d # c) = (d k \<noteq> None \<or> ctx_contains k c)"

fun ctx_getitem :: "string \<Rightarrow> template_context \<Rightarrow> error + pyval" where
  "ctx_getitem k [] = Inl (KeyError k)"
| "ctx_getitem k (d # c) = (case d k of Some v \<Rightarrow> Inr v | None \<Rightarrow> ctx_getitem k c)"

subsection \<open>The translation machinery and the observable trace\<close>

text \<open>The four catalog lookups of \<^verbatim>\<open>django.utils.translation\<close> with their arguments.\<close>

datatype catalog_call =
    Gettext string
  | Ngettext string string pyval
  | Pgettext pyval string
  | Npgettext pyval string string pyval

text \<open>
  The calls a render makes on its collaborators are recorded in a trace, in program order:
  a catalog lookup with the language active at the call, a push of a context scope with the
  dictionary pushed, a pop with the dictionary removed.
\<close>

datatype event =
    Lookup "string option" catalog_call
  | Push pydict
  | Pop pydict

text \<open>
  The state a render works on: the template context it was handed, the thread's active
  translation language (\<^verbatim>\<open>None\<close> when translations are deactivated) and the trace.
\<close>

record state =
  ctx :: template_context
  active :: "string option"
  trace :: "event list"

text \<open>
  \<^verbatim>\<open>with translation.override(None): ...\<close>, the only override the modelled code enters:
  entering the block saves the active language and deactivates all translations, so that no
  language is active (\<open>override_enter None\<close>); leaving it, normally or by an exception,
  activates the saved language again (\<open>override_exit\<close>).
\<close>

definition override_enter :: "string option \<Rightarrow> 'a state_scheme \<Rightarrow> 'a state_scheme" where
  "override_enter lang s = s\<lparr>active := lang\<rparr>"

definition override_exit :: "string option \<Rightarrow> 'a state_scheme \<Rightarrow> 'a state_scheme" where
  "override_exit old_language s = s\<lparr>active := old_language\<rparr>"

subsection \<open>The nodes\<close>

record block_translate_node =
  extra_context :: kwargs
  singular :: "token list"
  plural :: "token list option"
  countervar :: "string option"
  counter :: "filter_expression option"
  message_context :: "filter_expression option"
  trimmed :: bool
  asvar :: "string option"
  tag_name :: string

text \<open>
  A render of a \<^verbatim>\<open>BlockTranslateNode\<close> can reach the node itself through \<^verbatim>\<open>self\<close>, so the
  node is part of the state the render works on.
\<close>

record bt_state = state +
  self :: block_translate_node

text \<open>
  The variable inside the filter expression of a \<^verbatim>\<open>TranslateNode\<close>: the render sets its
  \<^verbatim>\<open>translate\<close> and \<^verbatim>\<open>message_context\<close> attributes before resolving it.
\<close>

record variable =
  literal :: string
  translate :: bool
  var_message_context :: "pyval option"


subsection \<open>The collaborators at render time\<close>

text \<open>
  \<^item> \<open>resolve\<close>: \<^verbatim>\<open>FilterExpression.resolve(context)\<close>;
  \<^item> \<open>resolve_var\<close>: the resolution of the filter expression of a \<^verbatim>\<open>TranslateNode\<close>, which
    looks its variable up in the catalog of the active language when \<^verbatim>\<open>translate\<close> is set;
  \<^item> \<open>render_value_in_context\<close>: the framework function of that name;
  \<^item> \<open>string_if_invalid\<close>: \<^verbatim>\<open>context.template.engine.string_if_invalid\<close>;
  \<^item> \<open>catalog\<close>: \<^verbatim>\<open>gettext\<close>, \<^verbatim>\<open>ngettext\<close>, \<^verbatim>\<open>pgettext\<close>, \<^verbatim>\<open>npgettext\<close> under the
    active language;
  \<^item> \<open>format_dict\<close>: Python's \<^verbatim>\<open>result % data\<close> for a dictionary \<open>data\<close>;
  \<^item> \<open>format_str\<close>: Python's \<^verbatim>\<open>default_value % key\<close> for a string \<open>key\<close>;
  \<^item> \<open>trim_whitespace\<close>: \<^verbatim>\<open>translation.trim_whitespace\<close>.
\<close>

record engine =
  resolve :: "filter_expression \<Rightarrow> template_context \<Rightarrow> pyval"
  resolve_var :: "variable \<Rightarrow> template_context \<Rightarrow> string option \<Rightarrow> pyval"
  render_value_in_context :: "pyval \<Rightarrow> template_context \<Rightarrow> pystr"
  string_if_invalid :: string
  catalog :: "string option \<Rightarrow> catalog_call \<Rightarrow> string"
  format_dict :: "string \<Rightarrow> (string \<rightharpoonup> string) \<Rightarrow> error + string"
  format_str :: "string \<Rightarrow> string \<Rightarrow> error + string"
  trim_whitespace :: "string \<Rightarrow> string"

section \<open>Strings\<close>

text \<open>\<open>strip_prefix p s\<close> is the rest of \<open>s\<close> after its prefix \<open>p\<close>, when \<open>s\<close> starts with
  \<open>p\<close>.\<close>

fun strip_prefix :: "string \<Rightarrow> string \<Rightarrow> string option" where
  "strip_prefix [] s = Some s"
| "strip_prefix (p # ps) [] = None"
| "strip_prefix (p # ps) (c # cs) = (if p = c then strip_prefix ps cs else None)"

lemma strip_prefix_length:
  "strip_prefix p s = Some r \<Longrightarrow> length s = length p + length r"
  by (induction p s rule: strip_prefix.induct) (auto split: if_splits)

text \<open>
  Python's \<^verbatim>\<open>s.replace(old, new)\<close>: the occurrences of \<open>old\<close> are found from left to right
  and do not overlap; an empty \<open>old\<close> matches before every character and at the end.
\<close>

function str_replace :: "string \<Rightarrow> string \<Rightarrow> string \<Rightarrow> string" where
  "str_replace old new s =
     (if old = [] then new @ concat (map (\<lambda>c. c # new) s)
      else (case s of
              [] \<Rightarrow> []
            | c # cs \<Rightarrow>
                (case strip_prefix old s of
                   Some rest \<Rightarrow> new @ str_replace old new rest
                 | None \<Rightarrow> c # str_replace old new cs)))"
  by pat_completeness auto
termination
proof (relation "measure (\<lambda>(old, new, s). length s)")
  show "wf (measure (\<lambda>(old, new, s). length s))"
    by simp
next
  fix old new s cs rest :: string and c :: char
  assume "old \<noteq> []" "s = c # cs" "strip_prefix old s = Some rest"
  then have "length rest < length s"
    using strip_prefix_length [of old s rest] by (cases old) auto
  then show "((old, new, rest), (old, new, s)) \<in> measure (\<lambda>(old, new, s). length s)"
    by simp
next
  fix old new s cs :: string and c :: char
  assume "s = c # cs"
  then show "((old, new, cs), (old, new, s)) \<in> measure (\<lambda>(old, new, s). length s)"
    by simp
qed

declare str_replace.simps [simp del]

text \<open>Python's \<^verbatim>\<open>sub in s\<close> on strings.\<close>

fun str_contains :: "string \<Rightarrow> string \<Rightarrow> bool" where
  "str_contains sub [] = (sub = [])"
| "str_contains sub (c # cs) = (strip_prefix sub (c # cs) \<noteq> None \<or> str_contains sub cs)"

section \<open>BlockTranslateNode\<close>

subsection \<open>render_token_list\<close>

text \<open>
  The loop of \<^verbatim>\<open>render_token_list\<close>: a \<^verbatim>\<open>TEXT\<close> token contributes its contents with
  every percent sign doubled, a \<^verbatim>\<open>VAR\<close> token contributes the placeholder
  \<^verbatim>\<open>'%%(%s)s' % token.contents\<close> and its name, any other token contributes nothing.
\<close>

fun token_pieces :: "token list \<Rightarrow> string list \<times> string list" where
  "token_pieces [] = ([], [])"
| "token_pieces (t # ts) =
     (let (result, vars) = token_pieces ts in
      if token_type t = TEXT then (str_replace ''%'' ''%%'' (contents t) # result, vars)
      else if token_type t = VAR then ((''%('' @ contents t @ '')s'') # result, contents t # vars)
      else (result, vars))"

definition render_token_list ::
  "engine \<Rightarrow> block_translate_node \<Rightarrow> token list \<Rightarrow> string \<times> string list" where
  "render_token_list E node tokens =
     (let (result, vars) = token_pieces tokens;
          msg = concat result
      in (if trimmed node then trim_whitespace E msg else msg, vars))"

subsection \<open>render\<close>

text \<open>The dictionary comprehension over \<^verbatim>\<open>self.extra_context.items()\<close>; a later binding
  of a name replaces an earlier one.\<close>

fun resolve_items :: "engine \<Rightarrow> kwargs \<Rightarrow> template_context \<Rightarrow> pydict \<Rightarrow> pydict" where
  "resolve_items E [] c d = d"
| "resolve_items E ((var, val) # kvs) c d = resolve_items E kvs c (d(var \<mapsto> resolve E val c))"

text \<open>The test \<^verbatim>\<open>self.plural and self.countervar and self.counter\<close>: a non-empty list of
  plural tokens, a non-empty counter name and a counter expression; the three values when it
  holds.\<close>

fun pluralizing ::
  "token list option \<Rightarrow> string option \<Rightarrow> filter_expression option \<Rightarrow>
   (token list \<times> string \<times> filter_expression) option" where
  "pluralizing (Some (t # ts)) (Some (c # cs)) (Some e) = Some (t # ts, c # cs, e)"
| "pluralizing p v e = None"

text \<open>A call of one of the four catalog functions: the answer of the catalog under the
  active language, and the call recorded in the trace.\<close>

definition lookup :: "engine \<Rightarrow> catalog_call \<Rightarrow> 'a state_scheme \<Rightarrow> string \<times> 'a state_scheme" where
  "lookup E call s = (catalog E (active s) call, s\<lparr>trace := trace s @ [Lookup (active s) call]\<rparr>)"

text \<open>The local function \<^verbatim>\<open>render_value\<close>. The formatting of \<^verbatim>\<open>string_if_invalid\<close> is
  outside the \<^verbatim>\<open>try\<close> statement: an exception it raises leaves the render.\<close>

definition render_value :: "engine \<Rightarrow> template_context \<Rightarrow> string \<Rightarrow> error + string" where
  "render_value E c key =
     (if ctx_contains key c then
        (case ctx_getitem key c of
           Inl e \<Rightarrow> Inl e
         | Inr val \<Rightarrow> Inr (chars (render_value_in_context E val c)))
      else
        (case (if str_contains ''%s'' (string_if_invalid E)
               then format_str E (string_if_invalid E) key
               else Inr (string_if_invalid E)) of
           Inl e \<Rightarrow> Inl e
         | Inr val \<Rightarrow> Inr (chars (render_value_in_context E (PyText (Str val)) c))))"

text \<open>\<^verbatim>\<open>data = {v: render_value(v) for v in vars}\<close>, built from left to right.\<close>

fun render_values ::
  "engine \<Rightarrow> template_context \<Rightarrow> string list \<Rightarrow> (string \<rightharpoonup> string) \<Rightarrow> error + (string \<rightharpoonup> string)" where
  "render_values E c [] data = Inr data"
| "render_values E c (v # vs) data =
     (case render_value E c v of
        Inl e \<Rightarrow> Inl e
      | Inr x \<Rightarrow> render_values E c vs (data(v \<mapsto> x)))"

text \<open>
  The part of \<^verbatim>\<open>render\<close> from the catalog call to \<^verbatim>\<open>context.pop()\<close>: the lookup, the
  substitution data for the placeholder names, and the removal of the scope pushed at the
  start. It yields the catalog's answer and the data.
\<close>

definition lookup_and_pop ::
  "engine \<Rightarrow> catalog_call \<Rightarrow> string list \<Rightarrow> bt_state \<Rightarrow>
   (error + string \<times> (string \<rightharpoonup> string)) \<times> bt_state" where
  "lookup_and_pop E call vars s =
     (let (result, s1) = lookup E call s in
      case render_values E (ctx s1) vars Map.empty of
        Inl e \<Rightarrow> (Inl e, s1)
      | Inr data \<Rightarrow>
          (case ctx_pop (ctx s1) of
             Inl e \<Rightarrow> (Inl e, s1)
           | Inr (d, c) \<Rightarrow> (Inr (result, data), s1\<lparr>ctx := c, trace := trace s1 @ [Pop d]\<rparr>)))"

text \<open>
  \<^verbatim>\<open>render\<close> up to the \<^verbatim>\<open>try\<close> statement: the message context is resolved, the
  \<^verbatim>\<open>with\<close> bindings are resolved in the context as it was handed in and pushed as a new
  scope, the token lists are rendered, the counter is resolved and bound in the new scope
  when the block pluralizes, and the catalog function is chosen.
\<close>

definition render_prepare ::
  "engine \<Rightarrow> bt_state \<Rightarrow> (error + string \<times> (string \<rightharpoonup> string)) \<times> bt_state" where
  "render_prepare E s0 =
     (let node = self s0;
          msg_context =
            (case message_context node of
               Some e \<Rightarrow> resolve E e (ctx s0)
             | None \<Rightarrow> PyNone);
          scope = resolve_items E (extra_context node) (ctx s0) Map.empty;
          s1 = s0\<lparr>ctx := context_update scope (ctx s0), trace := trace s0 @ [Push scope]\<rparr>;
          (singular_msg, vars) = render_token_list E node (singular node)
      in case pluralizing (plural node) (countervar node) (counter node) of
           Some (plural_tokens, cvar, cexpr) \<Rightarrow>
             (let count = resolve E cexpr (ctx s1) in
              case ctx_setitem cvar count (ctx s1) of
                Inl e \<Rightarrow> (Inl e, s1)
              | Inr c \<Rightarrow>
                  (let (plural_msg, plural_vars) = render_token_list E node plural_tokens in
                   lookup_and_pop E
                     (if truthy msg_context
                      then Npgettext msg_context singular_msg plural_msg count
                      else Ngettext singular_msg plural_msg count)
                     (vars @ plural_vars) (s1\<lparr>ctx := c\<rparr>)))
         | None \<Rightarrow>
             lookup_and_pop E
               (if truthy msg_context
                then Pgettext msg_context singular_msg
                else Gettext singular_msg)
               vars s1)"

text \<open>
  \<^verbatim>\<open>render(context, nested)\<close>. The substitution \<^verbatim>\<open>result % data\<close> is tried; a
  \<^verbatim>\<open>KeyError\<close> or \<^verbatim>\<open>ValueError\<close> raises the \<^verbatim>\<open>TemplateSyntaxError\<close> when \<open>nested\<close> is
  set, and otherwise renders the node again with \<open>nested\<close> set and all translations
  deactivated; any other exception leaves the render. Then the result goes to the variable
  named by \<^verbatim>\<open>asvar\<close>, or is returned.
\<close>

function render :: "engine \<Rightarrow> bool \<Rightarrow> bt_state \<Rightarrow> (error + string) \<times> bt_state" where
  "render E nested s0 =
     (case render_prepare E s0 of
        (Inl e, s1) \<Rightarrow> (Inl e, s1)
      | (Inr (result, data), s1) \<Rightarrow>
          (case (case format_dict E result data of
                   Inr formatted \<Rightarrow> (Inr formatted, s1)
                 | Inl e \<Rightarrow>
                     if caught e then
                       (if nested then
                          (Inl (TemplateSyntaxError
                                  (UnableToFormat (tag_name (self s1)) result data)), s1)
                        else
                          (case render E True (override_enter None s1) of
                             (r, s2) \<Rightarrow> (r, override_exit (active s1) s2)))
                     else (Inl e, s1)) of
             (Inl e, s3) \<Rightarrow> (Inl e, s3)
           | (Inr result, s3) \<Rightarrow>
               (case asvar (self s3) of
                  Some (a # as) \<Rightarrow>
                    (case ctx_setitem (a # as) (PyText (Str result)) (ctx s3) of
                       Inl e \<Rightarrow> (Inl e, s3)
                     | Inr c \<Rightarrow> (Inr [], s3\<lparr>ctx := c\<rparr>))
                | _ \<Rightarrow> (Inr result, s3))))"
  by pat_completeness auto
termination
  by (relation "measure (\<lambda>(E, nested, s). if nested then 0 else 1)") auto

declare render.simps [simp del]

section \<open>TranslateNode\<close>


section \<open>do_block_translate\<close>

subsection \<open>The collaborators at compile time\<close>

text \<open>
  \<^item> \<open>split_contents\<close>: \<^verbatim>\<open>token.split_contents()\<close>;
  \<^item> \<open>token_kwargs\<close>: \<^verbatim>\<open>token_kwargs(remaining_bits, parser, support_legacy=True)\<close>. The
    framework function deletes the bits it consumes from the front of the list it is given;
    the model returns the bindings with the number of bits consumed;
  \<^item> \<open>compile_filter\<close>: \<^verbatim>\<open>parser.compile_filter\<close>.
\<close>

record compiler =
  split_contents :: "token \<Rightarrow> string list"
  token_kwargs :: "string list \<Rightarrow> error + (kwargs \<times> nat)"
  compile_filter :: "string \<Rightarrow> error + filter_expression"

text \<open>
  The dictionary \<^verbatim>\<open>options\<close>. An option name that is not one of the five raises before
  anything is stored, so the dictionary only ever has these keys; a key that is absent is
  \<open>None\<close>.
\<close>

record options =
  opt_with :: "kwargs option"
  opt_count :: "kwargs option"
  opt_context :: "filter_expression option"
  opt_trimmed :: "bool option"
  opt_asvar :: "string option"

definition empty_options :: options where
  "empty_options =
     \<lparr>opt_with = None, opt_count = None, opt_context = None, opt_trimmed = None, opt_asvar = None\<rparr>"

text \<open>\<^verbatim>\<open>option in options\<close>.\<close>

definition option_in :: "string \<Rightarrow> options \<Rightarrow> bool" where
  "option_in opt opts =
     (if opt = ''with'' then opt_with opts \<noteq> None
      else if opt = ''count'' then opt_count opts \<noteq> None
      else if opt = ''context'' then opt_context opts \<noteq> None
      else if opt = ''trimmed'' then opt_trimmed opts \<noteq> None
      else if opt = ''asvar'' then opt_asvar opts \<noteq> None
      else False)"

text \<open>The loop \<^verbatim>\<open>while remaining_bits\<close>; \<open>tag\<close> is \<^verbatim>\<open>bits[0]\<close>.\<close>

function parse_options ::
  "compiler \<Rightarrow> string \<Rightarrow> string list \<Rightarrow> options \<Rightarrow> string option \<Rightarrow>
   error + (options \<times> string option)" where
  "parse_options C tag [] opts asvar_name = Inr (opts, asvar_name)"
| "parse_options C tag (opt # remaining_bits) opts asvar_name =
     (if option_in opt opts then Inl (TemplateSyntaxError (OptionTwice opt))
      else if opt = ''with'' then
        (case token_kwargs C remaining_bits of
           Inl e \<Rightarrow> Inl e
         | Inr (val, n) \<Rightarrow>
             if val = [] then Inl (TemplateSyntaxError (WithNeedsKeyword tag))
             else parse_options C tag (drop n remaining_bits)
                    (opts\<lparr>opt_with := Some val\<rparr>) asvar_name)
      else if opt = ''count'' then
        (case token_kwargs C remaining_bits of
           Inl e \<Rightarrow> Inl e
         | Inr (val, n) \<Rightarrow>
             if length val \<noteq> 1 then Inl (TemplateSyntaxError (CountNeedsOneKeyword tag))
             else parse_options C tag (drop n remaining_bits)
                    (opts\<lparr>opt_count := Some val\<rparr>) asvar_name)
      else if opt = ''context'' then
        (case remaining_bits of
           [] \<Rightarrow> Inl (TemplateSyntaxError (ContextNeedsArgument tag))
         | val # rest \<Rightarrow>
             (case compile_filter C val of
                Inl e \<Rightarrow> Inl (TemplateSyntaxError (ContextNeedsArgument tag))
              | Inr fe \<Rightarrow>
                  parse_options C tag rest (opts\<lparr>opt_context := Some fe\<rparr>) asvar_name))
      else if opt = ''trimmed'' then
        parse_options C tag remaining_bits (opts\<lparr>opt_trimmed := Some True\<rparr>) asvar_name
      else if opt = ''asvar'' then
        (case remaining_bits of
           [] \<Rightarrow> Inl (TemplateSyntaxError (AsvarNoArgument tag))
         | val # rest \<Rightarrow>
             parse_options C tag rest (opts\<lparr>opt_asvar := Some val\<rparr>) (Some val))
      else Inl (TemplateSyntaxError (UnknownArgument tag opt)))"
  by pat_completeness auto
termination
  by (relation "measure (\<lambda>(C, tag, bits, opts, a). length bits)") auto

declare parse_options.simps(2) [simp del]

text \<open>Python's \<^verbatim>\<open>str.strip()\<close> on ASCII text.\<close>

definition is_space :: "char \<Rightarrow> bool" where
  "is_space c =
     (c \<in> set [CHR '' '', CHR 0x09, CHR 0x0A, CHR 0x0B, CHR 0x0C, CHR 0x0D,
                CHR 0x1C, CHR 0x1D, CHR 0x1E, CHR 0x1F])"

definition strip :: "string \<Rightarrow> string" where
  "strip s = rev (dropWhile is_space (rev (dropWhile is_space s)))"

text \<open>
  The loop \<^verbatim>\<open>while parser.tokens\<close> that gathers a body: \<open>collect_tokens tokens tok body\<close>
  takes \<^verbatim>\<open>parser.tokens\<close>, the current value of the variable \<^verbatim>\<open>token\<close> and the body so
  far, and yields the body, the value of \<^verbatim>\<open>token\<close> after the loop and the tokens left in
  the parser. When the parser has no token left, \<^verbatim>\<open>token\<close> keeps its last value.
\<close>

fun collect_tokens :: "token list \<Rightarrow> token \<Rightarrow> token list \<Rightarrow> token list \<times> token \<times> token list" where
  "collect_tokens [] tok body = (body, tok, [])"
| "collect_tokens (t # ts) tok body =
     (if token_type t = VAR \<or> token_type t = TEXT
      then collect_tokens ts t (body @ [t])
      else (body, t, ts))"

text \<open>The end of \<^verbatim>\<open>do_block_translate\<close>: the check of the closing tag and the node.\<close>

definition close_block ::
  "string \<Rightarrow> options \<Rightarrow> string option \<Rightarrow> string option \<Rightarrow> filter_expression option \<Rightarrow>
   token list \<Rightarrow> token list \<Rightarrow> token \<Rightarrow> token list \<Rightarrow>
   error + (block_translate_node \<times> token list)" where
  "close_block tag opts asvar_name cvar cexpr singular_tokens plural_tokens tok tokens =
     (if strip (contents tok) \<noteq> ''end'' @ tag
      then Inl (TemplateSyntaxError (NoOtherBlockTagsSeen tag (contents tok)))
      else Inr (\<lparr>extra_context = (case opt_with opts of Some kw \<Rightarrow> kw | None \<Rightarrow> []),
                 singular = singular_tokens,
                 plural = Some plural_tokens,
                 countervar = cvar,
                 counter = cexpr,
                 message_context = opt_context opts,
                 trimmed = (case opt_trimmed opts of Some b \<Rightarrow> b | None \<Rightarrow> False),
                 asvar = asvar_name,
                 tag_name = tag\<rparr>, tokens))"

text \<open>
  \<^verbatim>\<open>do_block_translate(parser, token)\<close>, on the tokens the parser still holds. It yields the
  node and the tokens left in the parser, or the exception raised.
\<close>

definition do_block_translate ::
  "compiler \<Rightarrow> token list \<Rightarrow> token \<Rightarrow> error + (block_translate_node \<times> token list)" where
  "do_block_translate C parser_tokens tok =
     (case split_contents C tok of
        [] \<Rightarrow> Inl IndexError
      | tag # remaining_bits \<Rightarrow>
          (case parse_options C tag remaining_bits empty_options None of
             Inl e \<Rightarrow> Inl e
           | Inr (opts, asvar_name) \<Rightarrow>
               (case (case opt_count opts of
                        Some [] \<Rightarrow> Inl (Raised ''StopIteration'')
                      | Some ((k, v) # kvs) \<Rightarrow> Inr (Some k, Some v)
                      | None \<Rightarrow> Inr (None, None)) of
                  Inl e \<Rightarrow> Inl e
                | Inr (cvar, cexpr) \<Rightarrow>
                    (let (singular_tokens, tok1, tokens1) = collect_tokens parser_tokens tok []
                     in if truthy_name cvar \<and> cexpr \<noteq> None then
                          (if strip (contents tok1) \<noteq> ''plural''
                           then Inl (TemplateSyntaxError (NoOtherBlockTags tag))
                           else (let (plural_tokens, tok2, tokens2) = collect_tokens tokens1 tok1 []
                                 in close_block tag opts asvar_name cvar cexpr
                                      singular_tokens plural_tokens tok2 tokens2))
                        else close_block tag opts asvar_name cvar cexpr
                               singular_tokens [] tok1 tokens1))))"

section \<open>A standard instance of the collaborators\<close>

text \<open>
  The theorems about the module hold for every engine and compiler. To run the model on
  concrete templates, and for the one property that depends on what \<^verbatim>\<open>%\<close> does with a
  doubled percent sign, this section gives one instance of each collaborator.
\<close>

subsection \<open>Python's percent formatting with a dictionary\<close>

text \<open>
  The mapping key of a conversion \<^verbatim>\<open>%(key)s\<close>: the characters up to the parenthesis that
  closes the opening one, counting nested parentheses as Python does. \<open>None\<close> when the key
  is not closed.
\<close>

fun format_key :: "nat \<Rightarrow> string \<Rightarrow> string \<Rightarrow> (string \<times> string) option" where
  "format_key depth key [] = None"
| "format_key depth key (c # cs) =
     (if c = CHR '')'' then
        (case depth of
           0 \<Rightarrow> Some (key, cs)
         | Suc d \<Rightarrow> format_key d (key @ [c]) cs)
      else if c = CHR ''('' then format_key (Suc depth) (key @ [c]) cs
      else format_key depth (key @ [c]) cs)"

lemma format_key_length:
  "format_key depth key s = Some (k, rest) \<Longrightarrow> length rest < length s"
  by (induction depth key s rule: format_key.induct)
     (fastforce split: if_splits nat.splits)+

text \<open>Placing a formatted piece in front of the formatted rest, unless the rest raised.\<close>

fun prepend :: "string \<Rightarrow> error + string \<Rightarrow> error + string" where
  "prepend p (Inl e) = Inl e"
| "prepend p (Inr r) = Inr (p @ r)"

text \<open>The conversion types that want a number.\<close>

definition numeric_conversion :: "char \<Rightarrow> bool" where
  "numeric_conversion t = (t \<in> set ''diouxXeEfFgG'')"

text \<open>
  \<^verbatim>\<open>fmt % data\<close> for a dictionary \<open>data\<close> of strings, on the fragment of format strings
  made of literal text, \<^verbatim>\<open>%%\<close>, \<^verbatim>\<open>%(key)s\<close> and conversions of a numeric type without
  flags. The format is read from left to right and the first defect raises: a percent sign
  at the end or an unclosed key is a \<^verbatim>\<open>ValueError\<close>, a key that \<open>data\<close> lacks is a
  \<^verbatim>\<open>KeyError\<close>, and a numeric conversion is a \<^verbatim>\<open>TypeError\<close>, since its argument is a
  string of \<open>data\<close> or, without a key, \<open>data\<close> itself. Conversions with flags, a width or
  a precision, and the other conversion types, are outside the fragment.
\<close>

function py_format :: "string \<Rightarrow> (string \<rightharpoonup> string) \<Rightarrow> error + string" where
  "py_format [] data = Inr []"
| "py_format (c # cs) data =
     (if c \<noteq> CHR ''%'' then prepend [c] (py_format cs data)
      else (case cs of
              [] \<Rightarrow> Inl ValueError
            | d # ds \<Rightarrow>
                if d = CHR ''%'' then prepend ''%'' (py_format ds data)
                else if d = CHR ''('' then
                  (case format_key 0 [] ds of
                     None \<Rightarrow> Inl ValueError
                   | Some (key, rest) \<Rightarrow>
                       (case data key of
                          None \<Rightarrow> Inl (KeyError key)
                        | Some v \<Rightarrow>
                            (case rest of
                               [] \<Rightarrow> Inl ValueError
                             | t # ts \<Rightarrow>
                                 if t = CHR ''s'' then prepend v (py_format ts data)
                                 else if numeric_conversion t then Inl TypeError
                                 else Inl OutsideFragment)))
                else if numeric_conversion d then Inl TypeError
                else Inl OutsideFragment))"
  by pat_completeness auto
termination
proof (relation "measure (\<lambda>(fmt, data). length fmt)")
  show "wf (measure (\<lambda>(fmt, data). length fmt))"
    by simp
next
  fix c :: char and cs :: string and data :: "string \<rightharpoonup> string"
  show "((cs, data), (c # cs, data)) \<in> measure (\<lambda>(fmt, data). length fmt)"
    by simp
next
  fix c d :: char and cs ds :: string and data :: "string \<rightharpoonup> string"
  assume "cs = d # ds"
  then show "((ds, data), (c # cs, data)) \<in> measure (\<lambda>(fmt, data). length fmt)"
    by simp
next
  fix c d t :: char and cs ds key rest ts :: string and data :: "string \<rightharpoonup> string"
    and x :: "string \<times> string"
  assume "cs = d # ds" "format_key 0 [] ds = Some x" "(key, rest) = x" "rest = t # ts"
  then have "length rest < length ds"
    using format_key_length [of 0 "[]" ds key rest] by simp
  with \<open>cs = d # ds\<close> \<open>rest = t # ts\<close>
  show "((ts, data), (c # cs, data)) \<in> measure (\<lambda>(fmt, data). length fmt)"
    by simp
qed

declare py_format.simps(2) [simp del]

text \<open>
  \<^verbatim>\<open>fmt % key\<close> for a single string \<open>key\<close>, on the fragment made of literal text,
  \<^verbatim>\<open>%%\<close> and \<^verbatim>\<open>%s\<close>: exactly one \<^verbatim>\<open>%s\<close> must take the argument, otherwise Python raises
  a \<^verbatim>\<open>TypeError\<close>. \<open>used\<close> tells whether the argument has been taken.
\<close>

fun py_format_one :: "bool \<Rightarrow> string \<Rightarrow> string \<Rightarrow> error + string" where
  "py_format_one used [] key = (if used then Inr [] else Inl TypeError)"
| "py_format_one used [c] key =
     (if c = CHR ''%'' then Inl ValueError else prepend [c] (py_format_one used [] key))"
| "py_format_one used (c # d # ds) key =
     (if c \<noteq> CHR ''%'' then prepend [c] (py_format_one used (d # ds) key)
      else if d = CHR ''%'' then prepend ''%'' (py_format_one used ds key)
      else if d = CHR ''s'' then
        (if used then Inl TypeError else prepend key (py_format_one True ds key))
      else Inl OutsideFragment)"

subsection \<open>An engine\<close>

text \<open>Decimal numerals, for the text of an integer and the value of an integer literal.\<close>

fun decimal :: "nat \<Rightarrow> string" where
  "decimal n =
     (if n < 10 then [''0123456789'' ! n]
      else decimal (n div 10) @ [''0123456789'' ! (n mod 10)])"

declare decimal.simps [simp del]

definition str_of_int :: "int \<Rightarrow> string" where
  "str_of_int i = (if i < 0 then ''-'' @ decimal (nat (- i)) else decimal (nat i))"

definition is_digit :: "char \<Rightarrow> bool" where
  "is_digit c = (c \<in> set ''0123456789'')"

definition int_of_digits :: "string \<Rightarrow> int" where
  "int_of_digits s = foldl (\<lambda>a c. 10 * a + (of_char c - 48)) 0 s"

text \<open>
  Resolution of a filter expression without filters: a quoted literal is its text (marked
  safe), a numeral is its value, any other expression is a variable looked up in the
  context, with \<open>invalid\<close> for a name the context lacks.
\<close>

definition quoted :: "string \<Rightarrow> string option" where
  "quoted s =
     (case s of
        q # rest \<Rightarrow>
          if (q = CHR 0x22 \<or> q = CHR 0x27) \<and> rest \<noteq> [] \<and> last rest = q
          then Some (butlast rest) else None
      | [] \<Rightarrow> None)"

fun std_resolve :: "string \<Rightarrow> filter_expression \<Rightarrow> template_context \<Rightarrow> pyval" where
  "std_resolve invalid (FilterExpression src) c =
     (case quoted src of
        Some lit \<Rightarrow> PyText (SafeString lit)
      | None \<Rightarrow>
          if src \<noteq> [] \<and> list_all is_digit src then PyInt (int_of_digits src)
          else (case ctx_getitem src c of
                  Inr v \<Rightarrow> v
                | Inl e \<Rightarrow> PyText (Str invalid)))"

text \<open>The text of a value (without localization and escaping).\<close>

fun std_render_value_in_context :: "pyval \<Rightarrow> template_context \<Rightarrow> pystr" where
  "std_render_value_in_context (PyText t) c = t"
| "std_render_value_in_context (PyInt n) c = Str (str_of_int n)"
| "std_render_value_in_context PyNone c = Str ''None''"

text \<open>What the catalog functions return when no translation is active: the message
  itself, the singular form for the count 1 and the plural form otherwise.\<close>

fun untranslated :: "catalog_call \<Rightarrow> string" where
  "untranslated (Gettext m) = m"
| "untranslated (Pgettext c m) = m"
| "untranslated (Ngettext m p n) = (if n = PyInt 1 then m else p)"
| "untranslated (Npgettext c m p n) = (if n = PyInt 1 then m else p)"

text \<open>
  A small catalog: German entries for three messages, the second with a misspelt
  placeholder and the third with a placeholder of a numeric conversion type, as a faulty
  translation file would have them; every other message is untranslated.
\<close>

definition demo_catalog :: "string option \<Rightarrow> catalog_call \<Rightarrow> string" where
  "demo_catalog lang call =
     (if lang = Some ''de'' \<and> call = Gettext ''Good morning'' then ''Guten Morgen''
      else if lang = Some ''de'' \<and> call = Gettext ''Hello %(name)s'' then ''Hallo %(nmae)s''
      else if lang = Some ''de'' \<and> call = Gettext ''Total %(n)s'' then ''Summe %(n)d''
      else untranslated call)"

text \<open>\<^verbatim>\<open>trim_whitespace\<close>: the text is stripped and every run of whitespace that holds a
  line break becomes one space.\<close>

fun trim_runs :: "string \<Rightarrow> string \<Rightarrow> string" where
  "trim_runs run [] = (if CHR 0x0A \<in> set run then '' '' else run)"
| "trim_runs run (c # cs) =
     (if is_space c then trim_runs (run @ [c]) cs
      else (if CHR 0x0A \<in> set run then '' '' else run) @ c # trim_runs [] cs)"

definition std_trim_whitespace :: "string \<Rightarrow> string" where
  "std_trim_whitespace s = trim_runs [] (strip s)"

text \<open>The variable of a \<^verbatim>\<open>TranslateNode\<close>: its literal, looked up in the catalog with
  its percent signs doubled when it is marked for translation.\<close>

definition std_resolve_var :: "variable \<Rightarrow> template_context \<Rightarrow> string option \<Rightarrow> pyval" where
  "std_resolve_var v c lang =
     (if translate v then
        (let msgid = str_replace ''%'' ''%%'' (literal v) in
         PyText (SafeString
           (demo_catalog lang
              (case var_message_context v of
                 Some mc \<Rightarrow> Pgettext mc msgid
               | None \<Rightarrow> Gettext msgid))))
      else PyText (SafeString (literal v)))"

definition std_engine :: engine where
  "std_engine =
     \<lparr>resolve = std_resolve [],
      resolve_var = std_resolve_var,
      render_value_in_context = std_render_value_in_context,
      string_if_invalid = [],
      catalog = demo_catalog,
      format_dict = py_format,
      format_str = (\<lambda>fmt key. py_format_one False fmt key),
      trim_whitespace = std_trim_whitespace\<rparr>"

subsection \<open>A compiler\<close>

text \<open>The bits of a tag: its contents split at whitespace (quoted arguments with spaces
  are not treated).\<close>

fun split_ws :: "string \<Rightarrow> string \<Rightarrow> string list" where
  "split_ws w [] = (if w = [] then [] else [w])"
| "split_ws w (c # cs) =
     (if is_space c then (if w = [] then split_ws [] cs else w # split_ws [] cs)
      else split_ws (w @ [c]) cs)"

definition std_split_contents :: "token \<Rightarrow> string list" where
  "std_split_contents tok = split_ws [] (contents tok)"

definition std_compile_filter :: "string \<Rightarrow> error + filter_expression" where
  "std_compile_filter src = Inr (FilterExpression src)"

text \<open>
  \<^verbatim>\<open>token_kwargs\<close> with \<^verbatim>\<open>support_legacy=True\<close>: bindings \<^verbatim>\<open>key=value\<close>, or in the legacy
  format \<^verbatim>\<open>value as key\<close> joined by \<^verbatim>\<open>and\<close>, are read from the front of the bits until a
  bit does not fit; a name bound twice keeps its place with the later value.
\<close>

definition is_word_char :: "char \<Rightarrow> bool" where
  "is_word_char c =
     (c \<in> set ''abcdefghijklmnopqrstuvwxyzABCDEFGHIJKLMNOPQRSTUVWXYZ0123456789_'')"

definition kwarg_match :: "string \<Rightarrow> (string \<times> string) option" where
  "kwarg_match b =
     (case dropWhile is_word_char b of
        [] \<Rightarrow> None
      | c # v \<Rightarrow>
          if c = CHR ''='' \<and> takeWhile is_word_char b \<noteq> [] \<and> v \<noteq> []
          then Some (takeWhile is_word_char b, v) else None)"

fun set_kwarg :: "kwargs \<Rightarrow> string \<Rightarrow> filter_expression \<Rightarrow> kwargs" where
  "set_kwarg [] k v = [(k, v)]"
| "set_kwarg ((k', v') # kvs) k v =
     (if k' = k then (k, v) # kvs else (k', v') # set_kwarg kvs k v)"

fun kwargs_keyword ::
  "(string \<Rightarrow> error + filter_expression) \<Rightarrow> string list \<Rightarrow> kwargs \<Rightarrow> nat \<Rightarrow>
   error + (kwargs \<times> nat)" where
  "kwargs_keyword cf [] kw n = Inr (kw, n)"
| "kwargs_keyword cf (b # bs) kw n =
     (case kwarg_match b of
        None \<Rightarrow> Inr (kw, n)
      | Some (k, src) \<Rightarrow>
          (case cf src of
             Inl e \<Rightarrow> Inl e
           | Inr fe \<Rightarrow> kwargs_keyword cf bs (set_kwarg kw k fe) (Suc n)))"

fun kwargs_legacy ::
  "(string \<Rightarrow> error + filter_expression) \<Rightarrow> string list \<Rightarrow> kwargs \<Rightarrow> nat \<Rightarrow>
   error + (kwargs \<times> nat)" where
  "kwargs_legacy cf (src # a # k # bs) kw n =
     (if a \<noteq> ''as'' then Inr (kw, n)
      else (case cf src of
              Inl e \<Rightarrow> Inl e
            | Inr fe \<Rightarrow>
                (case bs of
                   [] \<Rightarrow> Inr (set_kwarg kw k fe, n + 3)
                 | b # bs' \<Rightarrow>
                     if b \<noteq> ''and'' then Inr (set_kwarg kw k fe, n + 3)
                     else kwargs_legacy cf bs' (set_kwarg kw k fe) (n + 4))))"
| "kwargs_legacy cf bs kw n = Inr (kw, n)"

definition std_token_kwargs ::
  "(string \<Rightarrow> error + filter_expression) \<Rightarrow> string list \<Rightarrow> error + (kwargs \<times> nat)" where
  "std_token_kwargs cf bits =
     (case bits of
        [] \<Rightarrow> Inr ([], 0)
      | b # bs \<Rightarrow>
          if kwarg_match b \<noteq> None then kwargs_keyword cf bits [] 0
          else kwargs_legacy cf bits [] 0)"

definition std_compiler :: compiler where
  "std_compiler =
     \<lparr>split_contents = std_split_contents,
      token_kwargs = std_token_kwargs std_compile_filter,
      compile_filter = std_compile_filter\<rparr>"

section \<open>Notions used in the statements\<close>

text \<open>
  The scope a render pushes holds the \<^verbatim>\<open>with\<close> bindings, resolved in the context the
  render was handed (\<open>with_scope\<close>); when the block pluralizes, the counter is bound in it
  as well before it is popped (\<open>block_scope\<close>). \<open>resolved_message_context\<close> is the value
  of the local variable \<^verbatim>\<open>message_context\<close>, \<open>chosen_call\<close> the catalog call of a render
  and \<open>placeholder_names\<close> its list \<^verbatim>\<open>vars\<close>.
\<close>

definition with_scope :: "engine \<Rightarrow> bt_state \<Rightarrow> pydict" where
  "with_scope E s = resolve_items E (extra_context (self s)) (ctx s) Map.empty"

definition block_scope :: "engine \<Rightarrow> bt_state \<Rightarrow> pydict" where
  "block_scope E s =
     (case pluralizing (plural (self s)) (countervar (self s)) (counter (self s)) of
        Some (plural_tokens, cvar, cexpr) \<Rightarrow>
          (with_scope E s)(cvar \<mapsto> resolve E cexpr (with_scope E s # ctx s))
      | None \<Rightarrow> with_scope E s)"

definition resolved_message_context :: "engine \<Rightarrow> bt_state \<Rightarrow> pyval" where
  "resolved_message_context E s =
     (case message_context (self s) of
        Some e \<Rightarrow> resolve E e (ctx s)
      | None \<Rightarrow> PyNone)"

definition chosen_call :: "engine \<Rightarrow> bt_state \<Rightarrow> catalog_call" where
  "chosen_call E s =
     (let node = self s;
          mc = resolved_message_context E s;
          sg = fst (render_token_list E node (singular node))
      in case pluralizing (plural node) (countervar node) (counter node) of
           Some (plural_tokens, cvar, cexpr) \<Rightarrow>
             (let pl = fst (render_token_list E node plural_tokens);
                  count = resolve E cexpr (with_scope E s # ctx s)
              in if truthy mc then Npgettext mc sg pl count else Ngettext sg pl count)
         | None \<Rightarrow> if truthy mc then Pgettext mc sg else Gettext sg)"

definition placeholder_names :: "engine \<Rightarrow> bt_state \<Rightarrow> string list" where
  "placeholder_names E s =
     (let node = self s;
          vars = snd (render_token_list E node (singular node))
      in case pluralizing (plural node) (countervar node) (counter node) of
           Some (plural_tokens, cvar, cexpr) \<Rightarrow> vars @ snd (render_token_list E node plural_tokens)
         | None \<Rightarrow> vars)"


text \<open>The catalog lookups of a trace, in order, and the events of one attempt of a render:
  the push, the lookup under the language \<open>lang\<close>, and the pop when the attempt gets that
  far.\<close>

fun lookups :: "event list \<Rightarrow> (string option \<times> catalog_call) list" where
  "lookups [] = []"
| "lookups (Lookup l c # es) = (l, c) # lookups es"
| "lookups (e # es) = lookups es"

definition attempt_events :: "engine \<Rightarrow> bt_state \<Rightarrow> string option \<Rightarrow> bool \<Rightarrow> event list" where
  "attempt_events E s lang popped =
     Push (with_scope E s) # Lookup lang (chosen_call E s) #
     (if popped then [Pop (block_scope E s)] else [])"


text \<open>The last statement of \<^verbatim>\<open>render\<close> on the outcome of the \<^verbatim>\<open>try\<close> statement.\<close>

fun store_or_return :: "(error + string) \<times> bt_state \<Rightarrow> (error + string) \<times> bt_state" where
  "store_or_return (Inl e, s) = (Inl e, s)"
| "store_or_return (Inr result, s) =
     (case asvar (self s) of
        Some (a # as) \<Rightarrow>
          (case ctx_setitem (a # as) (PyText (Str result)) (ctx s) of
             Inl e \<Rightarrow> (Inl e, s)
           | Inr c \<Rightarrow> (Inr [], s\<lparr>ctx := c\<rparr>))
      | _ \<Rightarrow> (Inr result, s))"


text \<open>\<open>first_lookup E nested s call\<close>: the first catalog call that the render of \<open>s\<close> makes
  is \<open>call\<close>, under the language that is active when the render starts.\<close>

definition first_lookup :: "engine \<Rightarrow> bool \<Rightarrow> bt_state \<Rightarrow> catalog_call \<Rightarrow> bool" where
  "first_lookup E nested s call =
     (\<exists>rest. lookups (trace (snd (render E nested s))) =
               lookups (trace s) @ (active s, call) # rest)"





section \<open>Example templates\<close>

text \<open>
  \<^verbatim>\<open>{% blocktranslate %}Hello {{ name }}{% endblocktranslate %}\<close> rendered in German with
  \<open>name\<close> bound to \<open>Bob\<close>, and a block whose only token is the variable \<^verbatim>\<open>{{ f(x }}\<close>:
  block bodies are not compiled, so the lexer's token reaches the render as it is.
\<close>

definition hello_node :: block_translate_node where
  "hello_node =
     \<lparr>extra_context = [],
      singular = [\<lparr>token_type = TEXT, contents = ''Hello ''\<rparr>,
                  \<lparr>token_type = VAR, contents = ''name''\<rparr>],
      plural = Some [], countervar = None, counter = None, message_context = None,
      trimmed = False, asvar = None, tag_name = ''blocktranslate''\<rparr>"

definition hello_state :: bt_state where
  "hello_state =
     \<lparr>ctx = [[''name'' \<mapsto> PyText (Str ''Bob'')]], active = Some ''de'', trace = [],
      self = hello_node\<rparr>"

definition broken_state :: bt_state where
  "broken_state =
     \<lparr>ctx = [Map.empty], active = Some ''de'', trace = [],
      self = hello_node\<lparr>singular := [\<lparr>token_type = VAR, contents = ''f(x''\<rparr>]\<rparr>\<rparr>"

text \<open>
  \<^verbatim>\<open>{% blocktranslate %}Total {{ n }}{% endblocktranslate %}\<close> rendered in German with \<open>n\<close>
  bound to the text \<open>5\<close>.
\<close>

definition total_state :: bt_state where
  "total_state =
     \<lparr>ctx = [[''n'' \<mapsto> PyText (Str ''5'')]], active = Some ''de'', trace = [],
      self = hello_node\<lparr>singular := [\<lparr>token_type = TEXT, contents = ''Total ''\<rparr>,
                                       \<lparr>token_type = VAR, contents = ''n''\<rparr>]\<rparr>\<rparr>"

text \<open>
  The first example with \<^verbatim>\<open>asvar greeting\<close>, rendered under the language \<open>lang\<close>.
\<close>

definition greeting_state :: "string option \<Rightarrow> bt_state" where
  "greeting_state lang =
     \<lparr>ctx = [[''name'' \<mapsto> PyText (Str ''Bob'')]], active = lang, trace = [],
      self = hello_node\<lparr>asvar := Some ''greeting''\<rparr>\<rparr>"

text \<open>
  \<^verbatim>\<open>{% blocktranslate count n=total %}{{ n }} item{% plural %}{{ n }} items{% endblocktranslate %}\<close>,
  the same block with an empty plural section and the text \<open>one item\<close>, and
  \<^verbatim>\<open>{% blocktranslate with who=name %}Hello {{ who }}{% endblocktranslate %}\<close>; a context
  to render them in, with no language active.
\<close>

definition items_node :: block_translate_node where
  "items_node =
     \<lparr>extra_context = [],
      singular = [\<lparr>token_type = VAR, contents = ''n''\<rparr>,
                  \<lparr>token_type = TEXT, contents = '' item''\<rparr>],
      plural = Some [\<lparr>token_type = VAR, contents = ''n''\<rparr>,
                     \<lparr>token_type = TEXT, contents = '' items''\<rparr>],
      countervar = Some ''n'', counter = Some (FilterExpression ''total''),
      message_context = None, trimmed = False, asvar = None, tag_name = ''blocktranslate''\<rparr>"

definition one_item_node :: block_translate_node where
  "one_item_node =
     \<lparr>extra_context = [],
      singular = [\<lparr>token_type = TEXT, contents = ''one item''\<rparr>],
      plural = Some [],
      countervar = Some ''n'', counter = Some (FilterExpression ''total''),
      message_context = None, trimmed = False, asvar = None, tag_name = ''blocktranslate''\<rparr>"


definition shop_state :: "block_translate_node \<Rightarrow> bt_state" where
  "shop_state node =
     \<lparr>ctx = [[''total'' \<mapsto> PyInt 3, ''section'' \<mapsto> PyText (Str ''menu''),
              ''blank'' \<mapsto> PyText (Str [])]],
      active = None, trace = [], self = node\<rparr>"



section \<open>Properties of BlockTranslateNode.render\<close>

subsection \<open>One attempt\<close>

lemma lookup_and_pop_cases:
  assumes "lookup_and_pop E call vars s = (r, s1)"
  shows "self s1 = self s \<and> active s1 = active s \<and>
         ((\<exists>e. r = Inl e \<and> trace s1 = trace s @ [Lookup (active s) call] \<and> ctx s1 = ctx s) \<or>
          (\<exists>data d c. r = Inr (catalog E (active s) call, data) \<and> ctx s = d # c \<and> c \<noteq> [] \<and>
             render_values E (ctx s) vars Map.empty = Inr data \<and>
             trace s1 = trace s @ [Lookup (active s) call, Pop d] \<and> ctx s1 = c))"
  using assms
  by (cases "ctx s" rule: ctx_pop.cases)
     (auto simp: lookup_and_pop_def lookup_def split: sum.splits prod.splits)


lemma trace_ctx_update_swap:
  "(s :: 'a state_scheme)\<lparr>trace := t, ctx := c\<rparr> = s\<lparr>ctx := c, trace := t\<rparr>"
  by (cases s) simp

lemma render_prepare_eq:
  "render_prepare E s =
     lookup_and_pop E (chosen_call E s) (placeholder_names E s)
       (s\<lparr>ctx := block_scope E s # ctx s, trace := trace s @ [Push (with_scope E s)]\<rparr>)"
proof (cases "pluralizing (plural (self s)) (countervar (self s)) (counter (self s))")
  case None
  then show ?thesis
    by (simp add: render_prepare_def chosen_call_def with_scope_def block_scope_def
        placeholder_names_def resolved_message_context_def Let_def context_update_def
        split: prod.splits)
next
  case (Some a)
  then show ?thesis
    by (cases a)
       (simp add: trace_ctx_update_swap render_prepare_def chosen_call_def with_scope_def block_scope_def
        placeholder_names_def resolved_message_context_def Let_def context_update_def
        split: prod.splits)
qed

lemma render_prepare_cases:
  assumes "render_prepare E s = (r, s1)"
  shows "self s1 = self s \<and> active s1 = active s \<and>
         ((\<exists>e. r = Inl e \<and>
             trace s1 = trace s @ [Push (with_scope E s), Lookup (active s) (chosen_call E s)] \<and>
             ctx s1 = block_scope E s # ctx s) \<or>
          (\<exists>data. r = Inr (catalog E (active s) (chosen_call E s), data) \<and> ctx s \<noteq> [] \<and>
             render_values E (block_scope E s # ctx s) (placeholder_names E s) Map.empty = Inr data \<and>
             trace s1 = trace s @ [Push (with_scope E s), Lookup (active s) (chosen_call E s),
                                   Pop (block_scope E s)] \<and>
             ctx s1 = ctx s))"
  using lookup_and_pop_cases [OF assms [unfolded render_prepare_eq]] by auto

lemma lookups_append: "lookups (xs @ ys) = lookups xs @ lookups ys"
  by (induction xs rule: lookups.induct) auto

lemma render_unfold:
  "render E nested s =
     (case render_prepare E s of
        (Inl e, s1) \<Rightarrow> (Inl e, s1)
      | (Inr (result, data), s1) \<Rightarrow>
          store_or_return
            (case format_dict E result data of
               Inr formatted \<Rightarrow> (Inr formatted, s1)
             | Inl e \<Rightarrow>
                 if caught e then
                   (if nested then
                      (Inl (TemplateSyntaxError (UnableToFormat (tag_name (self s1)) result data)), s1)
                    else
                      (case render E True (override_enter None s1) of
                         (r, s2) \<Rightarrow> (r, override_exit (active s1) s2)))
                 else (Inl e, s1)))"
  by (subst render.simps)
     (auto split: prod.splits sum.splits option.splits list.splits)

lemma store_or_return_frame:
  assumes "store_or_return (r, s) = (r', s')"
  shows "self s' = self s \<and> active s' = active s \<and> trace s' = trace s"
  using assms by (cases r) (auto split: option.splits list.splits sum.splits)

lemma store_or_return_Inr:
  assumes "store_or_return (Inr f, s) = (r', s')" and "ctx s \<noteq> []"
  shows "(\<not> truthy_name (asvar (self s)) \<and> r' = Inr f \<and> ctx s' = ctx s) \<or>
         (\<exists>a. asvar (self s) = Some a \<and> a \<noteq> [] \<and> r' = Inr [] \<and>
              ctx_setitem a (PyText (Str f)) (ctx s) = Inr (ctx s'))"
  using assms by (cases "ctx s") (auto split: option.splits list.splits sum.splits)

lemma with_scope_cong:
  "self t = self s \<Longrightarrow> ctx t = ctx s \<Longrightarrow> with_scope E t = with_scope E s"
  by (simp add: with_scope_def)

lemma scope_cong:
  assumes "self t = self s" and "ctx t = ctx s"
  shows "block_scope E t = block_scope E s"
    and "chosen_call E t = chosen_call E s" and "placeholder_names E t = placeholder_names E s"
  using assms with_scope_cong [OF assms, of E]
  by (auto simp: block_scope_def chosen_call_def placeholder_names_def
      resolved_message_context_def Let_def split: option.splits)

lemma render_nested_eq:
  "render E True s =
     (case render_prepare E s of
        (Inl e, s1) \<Rightarrow> (Inl e, s1)
      | (Inr (result, data), s1) \<Rightarrow>
          store_or_return
            (case format_dict E result data of
               Inr formatted \<Rightarrow> (Inr formatted, s1)
             | Inl e \<Rightarrow>
                 (Inl (if caught e
                       then TemplateSyntaxError (UnableToFormat (tag_name (self s1)) result data)
                       else e), s1)))"
  by (subst render_unfold) (auto split: prod.splits sum.splits)

lemma render_nested_cases:
  assumes "render E True s = (r, s')"
  shows "self s' = self s \<and> active s' = active s \<and>
         (trace s' = trace s @ attempt_events E s (active s) False \<and> isl r \<or>
          trace s' = trace s @ attempt_events E s (active s) True) \<and>
         (\<forall>out. r = Inr out \<longrightarrow> ctx s \<noteq> [] \<and>
             ((\<not> truthy_name (asvar (self s)) \<and> ctx s' = ctx s) \<or>
              (\<exists>a f. asvar (self s) = Some a \<and> a \<noteq> [] \<and> out = [] \<and>
                 ctx_setitem a (PyText (Str f)) (ctx s) = Inr (ctx s'))))"
proof -
  obtain q s1 where p: "render_prepare E s = (q, s1)" by force
  note c = render_prepare_cases [OF p]
  show ?thesis
  proof (cases q)
    case (Inl e)
    with assms p have "r = Inl e" "s' = s1"
      by (simp_all add: render_nested_eq)
    with c Inl show ?thesis
      by (auto simp: attempt_events_def)
  next
    case (Inr rd)
    obtain result data where rd: "rd = (result, data)" by force
    show ?thesis
    proof (cases "format_dict E result data")
      case (Inl e)
      with assms p c Inr rd show ?thesis
        by (auto simp: render_nested_eq attempt_events_def)
    next
      case f: (Inr formatted)
      with assms p Inr rd have sr: "store_or_return (Inr formatted, s1) = (r, s')"
        by (simp add: render_nested_eq)
      from c Inr have s1: "self s1 = self s" "active s1 = active s" "ctx s1 = ctx s" "ctx s \<noteq> []"
        "trace s1 = trace s @ attempt_events E s (active s) True"
        by (auto simp: attempt_events_def)
      from store_or_return_frame [OF sr] store_or_return_Inr [OF sr] s1
      show ?thesis by auto
    qed
  qed
qed

lemma ctx_setitem_nonempty: "ctx_setitem k v c = Inr c' \<Longrightarrow> c' \<noteq> []"
  by (cases c) auto

lemma ctx_setitem_twice:
  "ctx_setitem k v c = Inr c' \<Longrightarrow> ctx_setitem k w c' = ctx_setitem k w c"
  by (cases c) auto

lemma lookups_attempt_events [simp]:
  "lookups (attempt_events E s lang p) = [(lang, chosen_call E s)]"
  by (simp add: attempt_events_def)

lemma render_retry_eq:
  assumes "render_prepare E s = (Inr (result, data), s1)"
    and "format_dict E result data = Inl e" and "caught e"
  shows "render E False s =
           store_or_return
             (case render E True (override_enter None s1) of
                (r, s2) \<Rightarrow> (r, override_exit (active s1) s2))"
  using assms by (subst render_unfold) simp

lemma render_uncaught_eq:
  assumes "render_prepare E s = (Inr (result, data), s1)"
    and "format_dict E result data = Inl e" and "\<not> caught e"
  shows "render E nested s = (Inl e, s1)"
  using assms by (subst render_unfold) simp

lemma render_retry_cases:
  assumes p: "render_prepare E s = (Inr (result, data), s1)"
    and f: "format_dict E result data = Inl e" and c: "caught e"
    and n: "render E True (override_enter None s1) = (r, s2)"
    and o: "render E False s = (r', s')"
  shows "r' = r \<and> self s' = self s \<and> active s' = active s \<and>
         (trace s' = trace s @ attempt_events E s (active s) True @ attempt_events E s None False
            \<and> isl r \<or>
          trace s' = trace s @ attempt_events E s (active s) True @ attempt_events E s None True) \<and>
         (\<forall>out. r = Inr out \<longrightarrow> ctx s \<noteq> [] \<and>
             ((\<not> truthy_name (asvar (self s)) \<and> ctx s' = ctx s) \<or>
              (\<exists>a. asvar (self s) = Some a \<and> a \<noteq> [] \<and> out = [] \<and>
                 ctx_setitem a (PyText (Str [])) (ctx s) = Inr (ctx s'))))"
proof -
  let ?t = "override_enter None s1"
  from render_prepare_cases [OF p]
  have s1: "self s1 = self s" "active s1 = active s" "ctx s1 = ctx s"
    "trace s1 = trace s @ attempt_events E s (active s) True"
    by (auto simp: attempt_events_def)
  then have t: "self ?t = self s" "ctx ?t = ctx s" "active ?t = None" "trace ?t = trace s1"
    by (simp_all add: override_enter_def)
  have ev: "attempt_events E ?t None q = attempt_events E s None q" for q
    using with_scope_cong [OF t(1,2), of E] scope_cong [OF t(1,2), of E]
    by (simp add: attempt_events_def)
  note nc = render_nested_cases [OF n, unfolded t ev]
  from o n p f c have sr: "store_or_return (r, override_exit (active s1) s2) = (r', s')"
    by (simp add: render_retry_eq)
  note fr = store_or_return_frame [OF sr]
  show ?thesis
  proof (cases r)
    case (Inl err)
    with sr have "r' = r" "s' = override_exit (active s1) s2"
      by simp_all
    with nc s1 Inl show ?thesis
      by (auto simp: override_exit_def)
  next
    case (Inr out)
    with nc have ne: "ctx (override_exit (active s1) s2) \<noteq> []"
      by (auto simp: override_exit_def dest: ctx_setitem_nonempty)
    from nc Inr have tr: "trace s2 = trace s1 @ attempt_events E s None True"
      by auto
    from nc Inr have cs: "ctx s \<noteq> []"
      "(\<not> truthy_name (asvar (self s)) \<and> ctx s2 = ctx s) \<or>
       (\<exists>a f. asvar (self s) = Some a \<and> a \<noteq> [] \<and> out = [] \<and>
          ctx_setitem a (PyText (Str f)) (ctx s) = Inr (ctx s2))"
      by auto
    from nc have sf: "self s2 = self s" by simp
    from store_or_return_Inr [OF sr [unfolded Inr] ne] cs sf
    have "r' = r \<and> ((\<not> truthy_name (asvar (self s)) \<and> ctx s' = ctx s) \<or>
              (\<exists>a. asvar (self s) = Some a \<and> a \<noteq> [] \<and> out = [] \<and>
                 ctx_setitem a (PyText (Str [])) (ctx s) = Inr (ctx s')))"
      using Inr by (auto simp: override_exit_def ctx_setitem_twice)
    with fr tr s1 cs(1) sf nc Inr show ?thesis
      by (simp add: override_exit_def)
  qed
qed

subsection \<open>Every render\<close>

lemma render_prepare_Inl:
  assumes "render_prepare E s = (Inl e, s1)"
  shows "render E nested s = (Inl e, s1)"
  using assms by (subst render_unfold) simp

lemma render_first_attempt_eq:
  assumes "render_prepare E s = (Inr (result, data), s1)"
    and "format_dict E result data = Inr formatted"
  shows "render E nested s = store_or_return (Inr formatted, s1)"
  using assms by (subst render_unfold) simp

lemma render_trace_after_prepare:
  assumes p: "render_prepare E s = (Inr (result, data), s1)"
  shows "\<exists>evs. trace (snd (render E nested s)) = trace s1 @ evs"
proof -
  obtain r s' where o: "render E nested s = (r, s')" by force
  show ?thesis
  proof (cases "format_dict E result data")
    case (Inr formatted)
    with p o have "store_or_return (Inr formatted, s1) = (r, s')"
      by (simp add: render_unfold)
    from store_or_return_frame [OF this] o show ?thesis by simp
  next
    case f: (Inl e)
    show ?thesis
    proof (cases "caught e \<and> \<not> nested")
      case False
      with p o f have "store_or_return (Inl (if caught e then
          TemplateSyntaxError (UnableToFormat (tag_name (self s1)) result data) else e), s1) = (r, s')"
        by (auto simp: render_unfold)
      then show ?thesis using o by simp
    next
      case True
      obtain r2 s2 where n: "render E True (override_enter None s1) = (r2, s2)" by force
      from True o have o': "render E False s = (r, s')" by simp
      from True have c: "caught e" by simp
      from render_prepare_cases [OF p]
      have "trace s1 = trace s @ attempt_events E s (active s) True"
        by (auto simp: attempt_events_def)
      with render_retry_cases [OF p f c n o'] o show ?thesis
        by auto
    qed
  qed
qed

lemma render_trace_prefix:
  "\<exists>evs. trace (snd (render E nested s)) =
     trace s @ Push (with_scope E s) # Lookup (active s) (chosen_call E s) # evs"
proof -
  obtain q s1 where p: "render_prepare E s = (q, s1)" by force
  from render_prepare_cases [OF p]
  have t: "\<exists>evs. trace s1 = trace s @ Push (with_scope E s) # Lookup (active s) (chosen_call E s) # evs"
    by auto
  show ?thesis
  proof (cases q)
    case (Inl e)
    with p t show ?thesis
      by (simp add: render_prepare_Inl)
  next
    case (Inr rd)
    obtain result data where "rd = (result, data)" by force
    with p Inr have "render_prepare E s = (Inr (result, data), s1)" by simp
    from render_trace_after_prepare [OF this, of nested] t show ?thesis
      by auto
  qed
qed

lemma render_always:
  "self (snd (render E nested s)) = self s \<and> active (snd (render E nested s)) = active s \<and>
   (trace (snd (render E nested s)) = trace s @ attempt_events E s (active s) False \<or>
    trace (snd (render E nested s)) = trace s @ attempt_events E s (active s) True \<or>
    trace (snd (render E nested s)) =
      trace s @ attempt_events E s (active s) True @ attempt_events E s None False \<or>
    trace (snd (render E nested s)) =
      trace s @ attempt_events E s (active s) True @ attempt_events E s None True)"
proof -
  obtain q s1 where p: "render_prepare E s = (q, s1)" by force
  obtain r s' where o: "render E nested s = (r, s')" by force
  note c = render_prepare_cases [OF p]
  show ?thesis
  proof (cases q)
    case (Inl e)
    with p o have "s' = s1" by (simp add: render_prepare_Inl)
    with c Inl o show ?thesis
      by (auto simp: attempt_events_def)
  next
    case (Inr rd)
    obtain result data where rd: "rd = (result, data)" by force
    note p' = p [unfolded Inr rd]
    from c Inr have t1: "trace s1 = trace s @ attempt_events E s (active s) True"
      "self s1 = self s" "active s1 = active s"
      by (auto simp: attempt_events_def)
    show ?thesis
    proof (cases "format_dict E result data")
      case (Inr formatted)
      with p' o have "store_or_return (Inr formatted, s1) = (r, s')"
        by (simp add: render_unfold)
      from store_or_return_frame [OF this] o t1 show ?thesis by simp
    next
      case f: (Inl e)
      show ?thesis
      proof (cases "caught e \<and> \<not> nested")
        case False
        with p' o f have "store_or_return (Inl (if caught e then
            TemplateSyntaxError (UnableToFormat (tag_name (self s1)) result data) else e), s1)
            = (r, s')"
          by (auto simp: render_unfold)
        then show ?thesis using o t1 by simp
      next
        case True
        obtain r2 s2 where n: "render E True (override_enter None s1) = (r2, s2)" by force
        from True o have o': "render E False s = (r, s')" by simp
        from True have cg: "caught e" by simp
        from render_retry_cases [OF p' f cg n o'] o show ?thesis
          by auto
      qed
    qed
  qed
qed

lemma ctx_setitem_Inr:
  "ctx_setitem a v c = Inr c' \<Longrightarrow> \<exists>d r. c = d # r \<and> c' = d(a \<mapsto> v) # r"
  by (cases c) auto

lemma render_success_cases:
  assumes "render E nested s = (Inr out, s')"
  shows "ctx s \<noteq> [] \<and>
         (trace s' = trace s @ attempt_events E s (active s) True \<or>
          \<not> nested \<and>
          trace s' = trace s @ attempt_events E s (active s) True @ attempt_events E s None True) \<and>
         ((\<not> truthy_name (asvar (self s)) \<and> ctx s' = ctx s) \<or>
          (\<exists>a v. asvar (self s) = Some a \<and> a \<noteq> [] \<and> out = [] \<and>
             ctx_setitem a (PyText (Str v)) (ctx s) = Inr (ctx s')))"
proof -
  obtain q s1 where p: "render_prepare E s = (q, s1)" by force
  show ?thesis
  proof (cases q)
    case (Inl e)
    with assms p show ?thesis
      by (simp add: render_unfold)
  next
    case (Inr rd)
    obtain result data where rd: "rd = (result, data)" by force
    note p' = p [unfolded Inr rd]
    from render_prepare_cases [OF p']
    have s1: "self s1 = self s" "active s1 = active s" "ctx s1 = ctx s" "ctx s \<noteq> []"
      "trace s1 = trace s @ attempt_events E s (active s) True"
      by (auto simp: attempt_events_def)
    show ?thesis
    proof (cases "format_dict E result data")
      case f: (Inr formatted)
      from assms render_first_attempt_eq [OF p' f]
      have sr: "store_or_return (Inr formatted, s1) = (Inr out, s')"
        by simp
      from store_or_return_frame [OF sr] store_or_return_Inr [OF sr] s1
      show ?thesis by auto
    next
      case f: (Inl e)
      show ?thesis
      proof (cases "caught e \<and> \<not> nested")
        case False
        with assms p' f show ?thesis
          by (auto simp: render_unfold split: if_splits)
      next
        case True
        obtain r s2 where n: "render E True (override_enter None s1) = (r, s2)" by force
        from True assms have o: "render E False s = (Inr out, s')" by simp
        from True have c: "caught e" by simp
        from render_retry_cases [OF p' f c n o] True show ?thesis
          by auto
      qed
    qed
  qed
qed

lemma first_lookup_chosen: "first_lookup E nested s (chosen_call E s)"
proof -
  from render_trace_prefix [of E nested s] obtain evs where
    "trace (snd (render E nested s)) =
       trace s @ Push (with_scope E s) # Lookup (active s) (chosen_call E s) # evs"
    by blast
  then have "lookups (trace (snd (render E nested s))) =
       lookups (trace s) @ (active s, chosen_call E s) # lookups evs"
    by (simp add: lookups_append)
  then show ?thesis
    unfolding first_lookup_def by blast
qed

lemma pluralizing_Some:
  "pt \<noteq> [] \<Longrightarrow> cv \<noteq> [] \<Longrightarrow> pluralizing (Some pt) (Some cv) (Some ce) = Some (pt, cv, ce)"
  by (cases pt; cases cv) auto

lemma pluralizing_None:
  "p = None \<or> p = Some [] \<or> v = None \<or> v = Some [] \<or> e = None \<Longrightarrow> pluralizing p v e = None"
  by (cases "(p, v, e)" rule: pluralizing.cases) auto

subsection \<open>Renders that differ in the counter only\<close>




lemma pluralizing_empty [simp]:
  "pluralizing (Some []) v e = None" "pluralizing None v e = None"
  by (simp_all add: pluralizing_None)







subsection \<open>Strings\<close>

lemma str_replace_Nil [simp]: "str_replace old new [] = (if old = [] then new else [])"
  by (subst str_replace.simps) simp

lemma double_percent_Cons [simp]:
  "str_replace ''%'' ''%%'' (c # cs) =
     (if c = CHR ''%'' then ''%%'' else [c]) @ str_replace ''%'' ''%%'' cs"
  by (subst str_replace.simps) simp

lemma single_percent_one [simp]: "str_replace ''%%'' ''%'' [c] = [c]"
  by (subst str_replace.simps) simp

lemma single_percent_Cons [simp]:
  "str_replace ''%%'' ''%'' (c # d # ds) =
     (if c = CHR ''%'' \<and> d = CHR ''%'' then CHR ''%'' # str_replace ''%%'' ''%'' ds
      else c # str_replace ''%%'' ''%'' (d # ds))"
  by (subst str_replace.simps) simp


subsection \<open>Percent signs\<close>

lemma prepend_prepend [simp]: "prepend a (prepend b r) = prepend (a @ b) r"
  by (cases r) simp_all

lemma prepend_Nil [simp]: "prepend [] r = r"
  by (cases r) simp_all
















subsection \<open>Evaluation of the examples\<close>

lemma hello_node_fields [simp]:
  "asvar hello_node = None" "tag_name hello_node = ''blocktranslate''"
  by (simp_all add: hello_node_def)

lemma hello_prepare:
  "render_prepare std_engine
     \<lparr>ctx = [[''name'' \<mapsto> PyText (Str ''Bob'')]], active = l, trace = t, self = hello_node\<rparr> =
     (Inr (demo_catalog l (Gettext ''Hello %(name)s''), [''name'' \<mapsto> ''Bob'']),
      \<lparr>ctx = [[''name'' \<mapsto> PyText (Str ''Bob'')]], active = l,
       trace = t @ [Push Map.empty, Lookup l (Gettext ''Hello %(name)s''), Pop Map.empty],
       self = hello_node\<rparr>)"
  by (simp add: render_prepare_def hello_node_def std_engine_def
      render_token_list_def lookup_and_pop_def lookup_def context_update_def
      render_value_def Let_def)

lemma broken_prepare:
  "render_prepare std_engine
     \<lparr>ctx = [Map.empty], active = l, trace = t,
      self = hello_node\<lparr>singular := [\<lparr>token_type = VAR, contents = ''f(x''\<rparr>]\<rparr>\<rparr> =
     (Inr (''%(f(x)s'', [''f(x'' \<mapsto> []]),
      \<lparr>ctx = [Map.empty], active = l,
       trace = t @ [Push Map.empty, Lookup l (Gettext ''%(f(x)s''), Pop Map.empty],
       self = hello_node\<lparr>singular := [\<lparr>token_type = VAR, contents = ''f(x''\<rparr>]\<rparr>\<rparr>)"
  by (simp add: render_prepare_def hello_node_def std_engine_def
      render_token_list_def lookup_and_pop_def lookup_def context_update_def
      render_value_def Let_def demo_catalog_def)

lemma total_prepare:
  "render_prepare std_engine total_state =
     (Inr (''Summe %(n)d'', [''n'' \<mapsto> ''5'']),
      total_state\<lparr>trace := [Push Map.empty, Lookup (Some ''de'') (Gettext ''Total %(n)s''),
                              Pop Map.empty]\<rparr>)"
  by (simp add: render_prepare_def total_state_def hello_node_def std_engine_def
      render_token_list_def lookup_and_pop_def lookup_def context_update_def
      render_value_def Let_def demo_catalog_def)

lemma total_format:
  "format_dict std_engine ''Summe %(n)d'' [''n'' \<mapsto> ''5''] = Inl TypeError"
  by (simp add: std_engine_def py_format.simps(2) numeric_conversion_def)

lemma std_compiler_fields [simp]:
  "split_contents std_compiler = std_split_contents"
  "token_kwargs std_compiler = std_token_kwargs std_compile_filter"
  "compile_filter std_compiler = std_compile_filter"
  by (simp_all add: std_compiler_def)


lemma kwarg_match_examples [simp]:
  "kwarg_match ''a=x'' = Some (''a'', ''x'')"
  "kwarg_match ''a=y'' = Some (''a'', ''y'')"
  by (simp_all add: kwarg_match_def is_word_char_def)

lemma dropWhile_hd: "xs \<noteq> [] \<Longrightarrow> \<not> P (hd xs) \<Longrightarrow> dropWhile P xs = xs"
  by (cases xs) auto

lemma strip_no_space:
  assumes "\<not> is_space (hd s)" and "\<not> is_space (last s)" and "s \<noteq> []"
  shows "strip s = s"
proof -
  from assms have "dropWhile is_space s = s"
    by (simp add: dropWhile_hd)
  moreover from assms have "dropWhile is_space (rev s) = rev s"
    by (simp add: dropWhile_hd hd_rev)
  ultimately show ?thesis
    by (simp add: strip_def)
qed

lemma strip_examples [simp]:
  "strip ''endblocktranslate'' = ''endblocktranslate''"
  "strip ''plural'' = ''plural''"
  by (simp_all add: strip_no_space is_space_def)

lemma hello_untranslated:
  "format_dict std_engine (demo_catalog None (Gettext ''Hello %(name)s'')) [''name'' \<mapsto> ''Bob'']
     = Inr ''Hello Bob''"
  by (simp add: std_engine_def demo_catalog_def py_format.simps(2))

lemma hello_german:
  "format_dict std_engine (demo_catalog (Some ''de'') (Gettext ''Hello %(name)s''))
     [''name'' \<mapsto> ''Bob''] = Inl (KeyError ''nmae'')"
  by (simp add: std_engine_def demo_catalog_def py_format.simps(2))

lemma hello_render_first:
  assumes "py_format (demo_catalog l (Gettext ''Hello %(name)s'')) [''name'' \<mapsto> ''Bob''] = Inr out"
  shows "render std_engine nested
     \<lparr>ctx = [[''name'' \<mapsto> PyText (Str ''Bob'')]], active = l, trace = t, self = hello_node\<rparr> =
     (Inr out,
      \<lparr>ctx = [[''name'' \<mapsto> PyText (Str ''Bob'')]], active = l,
       trace = t @ [Push Map.empty, Lookup l (Gettext ''Hello %(name)s''), Pop Map.empty],
       self = hello_node\<rparr>)"
proof -
  have "format_dict std_engine (demo_catalog l (Gettext ''Hello %(name)s'')) [''name'' \<mapsto> ''Bob'']
        = Inr out"
    using assms by (simp add: std_engine_def)
  from render_first_attempt_eq [OF hello_prepare this] show ?thesis
    by simp
qed

lemma hello_render_retry:
  "render std_engine False hello_state =
     (Inr ''Hello Bob'',
      \<lparr>ctx = [[''name'' \<mapsto> PyText (Str ''Bob'')]], active = Some ''de'',
       trace = [Push Map.empty, Lookup (Some ''de'') (Gettext ''Hello %(name)s''), Pop Map.empty,
                Push Map.empty, Lookup None (Gettext ''Hello %(name)s''), Pop Map.empty],
       self = hello_node\<rparr>)"
proof -
  have c: "caught (KeyError ''nmae'')" by simp
  have u: "py_format (demo_catalog None (Gettext ''Hello %(name)s'')) [''name'' \<mapsto> ''Bob'']
     = Inr ''Hello Bob''"
    using hello_untranslated by (simp add: std_engine_def)
  from render_retry_eq [OF hello_prepare hello_german c, where t1 = "[]"]
       hello_render_first [OF u, where nested = True]
  show ?thesis
    by (simp add: hello_state_def override_enter_def override_exit_def)
qed

lemma greeting_prepare:
  "render_prepare std_engine
     \<lparr>ctx = [[''name'' \<mapsto> PyText (Str ''Bob'')]], active = l, trace = t,
      self = hello_node\<lparr>asvar := Some ''greeting''\<rparr>\<rparr> =
     (Inr (demo_catalog l (Gettext ''Hello %(name)s''), [''name'' \<mapsto> ''Bob'']),
      \<lparr>ctx = [[''name'' \<mapsto> PyText (Str ''Bob'')]], active = l,
       trace = t @ [Push Map.empty, Lookup l (Gettext ''Hello %(name)s''), Pop Map.empty],
       self = hello_node\<lparr>asvar := Some ''greeting''\<rparr>\<rparr>)"
  by (simp add: render_prepare_def hello_node_def std_engine_def
      render_token_list_def lookup_and_pop_def lookup_def context_update_def
      render_value_def Let_def)

lemma greeting_direct:
  "render std_engine nested
     \<lparr>ctx = [[''name'' \<mapsto> PyText (Str ''Bob'')]], active = None, trace = t,
      self = hello_node\<lparr>asvar := Some ''greeting''\<rparr>\<rparr> =
     (Inr [],
      \<lparr>ctx = [[''name'' \<mapsto> PyText (Str ''Bob''), ''greeting'' \<mapsto> PyText (Str ''Hello Bob'')]],
       active = None,
       trace = t @ [Push Map.empty, Lookup None (Gettext ''Hello %(name)s''), Pop Map.empty],
       self = hello_node\<lparr>asvar := Some ''greeting''\<rparr>\<rparr>)"
  using render_first_attempt_eq [OF greeting_prepare hello_untranslated]
  by (simp add: hello_node_def)

lemma one_item_parse:
  "do_block_translate std_compiler
     [\<lparr>token_type = TEXT, contents = ''one item''\<rparr>,
      \<lparr>token_type = BLOCK, contents = ''plural''\<rparr>,
      \<lparr>token_type = BLOCK, contents = ''endblocktranslate''\<rparr>]
     \<lparr>token_type = BLOCK, contents = ''blocktranslate count n=total''\<rparr> =
   Inr (one_item_node, [])"
  by (simp add: do_block_translate_def std_split_contents_def is_space_def
      empty_options_def close_block_def parse_options.simps(2) option_in_def
      std_token_kwargs_def std_compile_filter_def kwarg_match_def is_word_char_def
      one_item_node_def)

lemma one_item_render:
  "render std_engine False (shop_state one_item_node) =
     (Inr ''one item'',
      (shop_state one_item_node)
        \<lparr>trace := [Push Map.empty, Lookup None (Gettext ''one item''), Pop Map.empty]\<rparr>)"
proof -
  have p: "render_prepare std_engine (shop_state one_item_node) =
     (Inr (''one item'', Map.empty),
      (shop_state one_item_node)
        \<lparr>trace := [Push Map.empty, Lookup None (Gettext ''one item''), Pop Map.empty]\<rparr>)"
    by (simp add: render_prepare_def shop_state_def one_item_node_def std_engine_def
      render_token_list_def lookup_and_pop_def lookup_def context_update_def
      render_value_def Let_def demo_catalog_def)
  have f: "format_dict std_engine ''one item'' Map.empty = Inr ''one item''"
    by (simp add: std_engine_def py_format.simps(2))
  from render_first_attempt_eq [OF p f, of False] show ?thesis
    by (simp add: shop_state_def one_item_node_def)
qed

lemma blank_context_render:
  "render std_engine False
     (shop_state (hello_node\<lparr>message_context := Some (FilterExpression ''blank'')\<rparr>)) =
     (Inr ''Hello '',
      (shop_state (hello_node\<lparr>message_context := Some (FilterExpression ''blank'')\<rparr>))
        \<lparr>trace := [Push Map.empty, Lookup None (Gettext ''Hello %(name)s''), Pop Map.empty]\<rparr>)"
proof -
  have p: "render_prepare std_engine
     (shop_state (hello_node\<lparr>message_context := Some (FilterExpression ''blank'')\<rparr>)) =
     (Inr (''Hello %(name)s'', [''name'' \<mapsto> []]),
      (shop_state (hello_node\<lparr>message_context := Some (FilterExpression ''blank'')\<rparr>))
        \<lparr>trace := [Push Map.empty, Lookup None (Gettext ''Hello %(name)s''), Pop Map.empty]\<rparr>)"
    by (simp add: render_prepare_def shop_state_def hello_node_def std_engine_def
      render_token_list_def lookup_and_pop_def lookup_def context_update_def
      render_value_def Let_def demo_catalog_def quoted_def is_digit_def)
  have f: "format_dict std_engine ''Hello %(name)s'' [''name'' \<mapsto> []] = Inr ''Hello ''"
    by (simp add: std_engine_def py_format.simps(2))
  from render_first_attempt_eq [OF p f, of False] show ?thesis
    by (simp add: shop_state_def hello_node_def)
qed






subsection \<open>The retry\<close>

text \<open>
  Claim C1 speaks of every render whose substitution fails. As stated it does not hold: the
  \<^verbatim>\<open>except\<close> clause names \<^verbatim>\<open>KeyError\<close> and \<^verbatim>\<open>ValueError\<close> only. In the German rendering
  of the third example the catalog's answer has the placeholder \<^verbatim>\<open>%(n)d\<close>, the data for it
  is a string, the substitution raises a \<^verbatim>\<open>TypeError\<close>, and the render raises that
  \<^verbatim>\<open>TypeError\<close> after a single catalog lookup: there is no retry and the first failure is
  what the caller sees.
\<close>

theorem type_error_is_not_retried:
  "render_prepare std_engine total_state =
     (Inr (''Summe %(n)d'', [''n'' \<mapsto> ''5'']),
      total_state\<lparr>trace := [Push Map.empty, Lookup (Some ''de'') (Gettext ''Total %(n)s''),
                              Pop Map.empty]\<rparr>) \<and>
   format_dict std_engine ''Summe %(n)d'' [''n'' \<mapsto> ''5''] = Inl TypeError \<and>
   fst (render std_engine False total_state) = Inl TypeError \<and>
   lookups (trace (snd (render std_engine False total_state))) =
     [(Some ''de'', Gettext ''Total %(n)s'')]"
  using render_uncaught_eq [OF total_prepare total_format, of False]
  by (simp add: total_prepare total_format)

text \<open>
  Claim C1, for the substitution failures that the \<^verbatim>\<open>except\<close> clause catches. Take a
  render (not nested) whose first attempt gets as far as the substitution and whose
  substitution \<^verbatim>\<open>result % data\<close> raises a \<^verbatim>\<open>KeyError\<close> or \<^verbatim>\<open>ValueError\<close>. Then
  the outcome of the render is the outcome of one nested render that starts with all
  translations deactivated and with the context of the first attempt; the language that was
  active is active again afterwards; the render makes exactly two catalog lookups, the first
  under the active language and the second under none, so there is no third attempt; and
  when the substitution of the retry raises a \<^verbatim>\<open>KeyError\<close> or \<^verbatim>\<open>ValueError\<close> too, the render
  raises the \<^verbatim>\<open>TemplateSyntaxError\<close> that names the tag, the catalog's answer of the retry
  and the retry's substitution data. The exception of the first attempt appears nowhere in
  the outcome.
\<close>

theorem render_retries_once_untranslated:
  assumes "render_prepare E s = (Inr (result, data), s1)"
    and "format_dict E result data = Inl e"
    and "caught e"
  shows "fst (render E False s) = fst (render E True (override_enter None s1)) \<and>
         active (override_enter None s1) = None \<and>
         ctx (override_enter None s1) = ctx s \<and>
         active (snd (render E False s)) = active s \<and>
         lookups (trace (snd (render E False s))) =
           lookups (trace s) @ [(active s, chosen_call E s), (None, chosen_call E s)] \<and>
         (\<forall>result2 data2 s2 e2.
            render_prepare E (override_enter None s1) = (Inr (result2, data2), s2) \<and>
            format_dict E result2 data2 = Inl e2 \<and> caught e2 \<longrightarrow>
            fst (render E False s) =
              Inl (TemplateSyntaxError (UnableToFormat (tag_name (self s)) result2 data2)))"
proof -
  obtain r s2 where n: "render E True (override_enter None s1) = (r, s2)" by force
  obtain r' s' where o: "render E False s = (r', s')" by force
  note rc = render_retry_cases [OF assms n o]
  from render_prepare_cases [OF assms(1)]
  have s1: "self s1 = self s" "ctx s1 = ctx s"
    by auto
  have a: "fst (render E False s) = fst (render E True (override_enter None s1))"
    using rc n o by simp
  have b: "active (snd (render E False s)) = active s"
    using rc o by simp
  have c: "lookups (trace (snd (render E False s))) =
           lookups (trace s) @ [(active s, chosen_call E s), (None, chosen_call E s)]"
    using rc o by (auto simp: lookups_append)
  have d: "fst (render E False s) =
              Inl (TemplateSyntaxError (UnableToFormat (tag_name (self s)) result2 data2))"
    if "render_prepare E (override_enter None s1) = (Inr (result2, data2), s2)"
      and "format_dict E result2 data2 = Inl e2" and "caught e2" for result2 data2 s2 e2
  proof -
    from render_prepare_cases [OF that(1)] s1 have "self s2 = self s"
      by (simp add: override_enter_def)
    with that show ?thesis
      unfolding a by (simp add: render_nested_eq)
  qed
  from a b c d s1 show ?thesis
    by (simp add: override_enter_def)
qed



text \<open>
  The theorem at the two examples: the German catalog entry with the misspelt placeholder
  is retried untranslated and renders, and the block with the unclosed placeholder fails in
  both attempts.
\<close>

theorem render_retries_once_untranslated_witness:
  "fst (render std_engine False hello_state) = Inr ''Hello Bob'' \<and>
   lookups (trace (snd (render std_engine False hello_state))) =
     [(Some ''de'', Gettext ''Hello %(name)s''), (None, Gettext ''Hello %(name)s'')] \<and>
   active (snd (render std_engine False hello_state)) = Some ''de'' \<and>
   fst (render std_engine False broken_state) =
     Inl (TemplateSyntaxError (UnableToFormat ''blocktranslate'' ''%(f(x)s'' [''f(x'' \<mapsto> []]))"
proof -
  have fmt: "format_dict std_engine = py_format"
    by (simp add: std_engine_def)
  have p1: "render_prepare std_engine hello_state =
      (Inr (''Hallo %(nmae)s'', [''name'' \<mapsto> ''Bob'']),
       \<lparr>ctx = [[''name'' \<mapsto> PyText (Str ''Bob'')]], active = Some ''de'',
        trace = [Push Map.empty, Lookup (Some ''de'') (Gettext ''Hello %(name)s''), Pop Map.empty],
        self = hello_node\<rparr>)"
    by (simp add: hello_state_def hello_prepare demo_catalog_def)
  have f1: "format_dict std_engine ''Hallo %(nmae)s'' [''name'' \<mapsto> ''Bob''] = Inl (KeyError ''nmae'')"
    by (simp add: fmt py_format.simps(2))
  have n1: "fst (render std_engine True
      (override_enter None
        \<lparr>ctx = [[''name'' \<mapsto> PyText (Str ''Bob'')]], active = Some ''de'',
         trace = [Push Map.empty, Lookup (Some ''de'') (Gettext ''Hello %(name)s''), Pop Map.empty],
         self = hello_node\<rparr>)) = Inr ''Hello Bob''"
    by (simp add: override_enter_def render_nested_eq hello_prepare demo_catalog_def fmt
        py_format.simps(2))
  have c1: "chosen_call std_engine hello_state = Gettext ''Hello %(name)s''"
    by (simp add: chosen_call_def resolved_message_context_def hello_state_def hello_node_def
        render_token_list_def std_engine_def Let_def)
  have p2: "render_prepare std_engine broken_state =
      (Inr (''%(f(x)s'', [''f(x'' \<mapsto> []]),
       \<lparr>ctx = [Map.empty], active = Some ''de'',
        trace = [Push Map.empty, Lookup (Some ''de'') (Gettext ''%(f(x)s''), Pop Map.empty],
        self = hello_node\<lparr>singular := [\<lparr>token_type = VAR, contents = ''f(x''\<rparr>]\<rparr>\<rparr>)"
    by (simp add: broken_state_def broken_prepare)
  have f2: "format_dict std_engine ''%(f(x)s'' [''f(x'' \<mapsto> []] = Inl ValueError"
    by (simp add: fmt py_format.simps(2))
  have p3: "render_prepare std_engine
      (override_enter None
        \<lparr>ctx = [Map.empty], active = Some ''de'',
         trace = [Push Map.empty, Lookup (Some ''de'') (Gettext ''%(f(x)s''), Pop Map.empty],
         self = hello_node\<lparr>singular := [\<lparr>token_type = VAR, contents = ''f(x''\<rparr>]\<rparr>\<rparr>) =
      (Inr (''%(f(x)s'', [''f(x'' \<mapsto> []]),
       \<lparr>ctx = [Map.empty], active = None,
        trace = [Push Map.empty, Lookup (Some ''de'') (Gettext ''%(f(x)s''), Pop Map.empty,
                 Push Map.empty, Lookup None (Gettext ''%(f(x)s''), Pop Map.empty],
        self = hello_node\<lparr>singular := [\<lparr>token_type = VAR, contents = ''f(x''\<rparr>]\<rparr>\<rparr>)"
    by (simp add: override_enter_def broken_prepare)
  have t2: "tag_name (self broken_state) = ''blocktranslate''"
    by (simp add: broken_state_def)
  note r1 = render_retries_once_untranslated [OF p1 f1, simplified]
  note r2 = render_retries_once_untranslated [OF p2 f2, simplified]
  from r1 n1 have a: "fst (render std_engine False hello_state) = Inr ''Hello Bob''"
    by simp
  from r1 c1 have b: "lookups (trace (snd (render std_engine False hello_state))) =
     [(Some ''de'', Gettext ''Hello %(name)s''), (None, Gettext ''Hello %(name)s'')]"
    by (simp add: hello_state_def)
  from r1 have c: "active (snd (render std_engine False hello_state)) = Some ''de''"
    by (simp add: hello_state_def)
  from r2 p3 f2 t2 have d: "fst (render std_engine False broken_state) =
     Inl (TemplateSyntaxError (UnableToFormat ''blocktranslate'' ''%(f(x)s'' [''f(x'' \<mapsto> []]))"
    by fastforce
  from a b c d show ?thesis
    by simp
qed

subsection \<open>The choice of the catalog function\<close>

text \<open>
  Claim C5 reads the choice off the presence of a message context and of a count. As stated
  it does not hold. A block parsed from
  \<^verbatim>\<open>{% blocktranslate count n=total %}one item{% plural %}{% endblocktranslate %}\<close> has a count
  binding and no message context, and its render calls \<^verbatim>\<open>gettext\<close>, not \<^verbatim>\<open>ngettext\<close>,
  because the plural body is empty. A block with a message context that resolves to the
  empty string calls \<^verbatim>\<open>gettext\<close>, not \<^verbatim>\<open>pgettext\<close>.
\<close>

theorem count_with_empty_plural_uses_gettext:
  "do_block_translate std_compiler
     [\<lparr>token_type = TEXT, contents = ''one item''\<rparr>,
      \<lparr>token_type = BLOCK, contents = ''plural''\<rparr>,
      \<lparr>token_type = BLOCK, contents = ''endblocktranslate''\<rparr>]
     \<lparr>token_type = BLOCK, contents = ''blocktranslate count n=total''\<rparr> =
   Inr (one_item_node, []) \<and>
   countervar one_item_node = Some ''n'' \<and>
   counter one_item_node = Some (FilterExpression ''total'') \<and>
   message_context one_item_node = None \<and>
   lookups (trace (snd (render std_engine False (shop_state one_item_node)))) =
     [(None, Gettext ''one item'')] \<and>
   resolved_message_context std_engine
     (shop_state (hello_node\<lparr>message_context := Some (FilterExpression ''blank'')\<rparr>)) =
     PyText (Str []) \<and>
   lookups (trace (snd (render std_engine False
     (shop_state (hello_node\<lparr>message_context := Some (FilterExpression ''blank'')\<rparr>))))) =
     [(None, Gettext ''Hello %(name)s'')]"
  by (simp add: one_item_parse one_item_render blank_context_render)
     (simp add: one_item_node_def resolved_message_context_def shop_state_def std_engine_def
        quoted_def is_digit_def)

text \<open>
  Claim C5, with the two tests as the code makes them. The block pluralizes when it has a
  non-empty list of plural tokens, a non-empty counter name and a counter expression; the
  message context counts when its resolved value is true. The first catalog call of every
  render is then: \<^verbatim>\<open>npgettext(context, singular, plural, count)\<close> when the block pluralizes
  and the context counts, \<^verbatim>\<open>ngettext(singular, plural, count)\<close> when only the block
  pluralizes, \<^verbatim>\<open>pgettext(context, singular)\<close> when only the context counts, and
  \<^verbatim>\<open>gettext(singular)\<close> otherwise. The messages are the rendered token lists, the count is
  the counter expression resolved in the context with the new scope.
\<close>

theorem render_selects_catalog_function:
  "(\<forall>pt cv ce.
      plural (self s) = Some pt \<and> pt \<noteq> [] \<and>
      countervar (self s) = Some cv \<and> cv \<noteq> [] \<and> counter (self s) = Some ce \<longrightarrow>
      first_lookup E nested s
        (if truthy (resolved_message_context E s)
         then Npgettext (resolved_message_context E s)
                (fst (render_token_list E (self s) (singular (self s))))
                (fst (render_token_list E (self s) pt))
                (resolve E ce (with_scope E s # ctx s))
         else Ngettext
                (fst (render_token_list E (self s) (singular (self s))))
                (fst (render_token_list E (self s) pt))
                (resolve E ce (with_scope E s # ctx s)))) \<and>
   (plural (self s) = None \<or> plural (self s) = Some [] \<or>
    countervar (self s) = None \<or> countervar (self s) = Some [] \<or>
    counter (self s) = None \<longrightarrow>
      first_lookup E nested s
        (if truthy (resolved_message_context E s)
         then Pgettext (resolved_message_context E s)
                (fst (render_token_list E (self s) (singular (self s))))
         else Gettext (fst (render_token_list E (self s) (singular (self s))))))"
proof (intro conjI allI impI)
  fix pt cv ce
  assume "plural (self s) = Some pt \<and> pt \<noteq> [] \<and>
      countervar (self s) = Some cv \<and> cv \<noteq> [] \<and> counter (self s) = Some ce"
  then have "chosen_call E s =
        (if truthy (resolved_message_context E s)
         then Npgettext (resolved_message_context E s)
                (fst (render_token_list E (self s) (singular (self s))))
                (fst (render_token_list E (self s) pt))
                (resolve E ce (with_scope E s # ctx s))
         else Ngettext
                (fst (render_token_list E (self s) (singular (self s))))
                (fst (render_token_list E (self s) pt))
                (resolve E ce (with_scope E s # ctx s)))"
    by (simp add: chosen_call_def pluralizing_Some Let_def)
  with first_lookup_chosen [of E nested s]
  show "first_lookup E nested s
        (if truthy (resolved_message_context E s)
         then Npgettext (resolved_message_context E s)
                (fst (render_token_list E (self s) (singular (self s))))
                (fst (render_token_list E (self s) pt))
                (resolve E ce (with_scope E s # ctx s))
         else Ngettext
                (fst (render_token_list E (self s) (singular (self s))))
                (fst (render_token_list E (self s) pt))
                (resolve E ce (with_scope E s # ctx s)))"
    by simp
next
  assume "plural (self s) = None \<or> plural (self s) = Some [] \<or>
    countervar (self s) = None \<or> countervar (self s) = Some [] \<or>
    counter (self s) = None"
  then have "chosen_call E s =
        (if truthy (resolved_message_context E s)
         then Pgettext (resolved_message_context E s)
                (fst (render_token_list E (self s) (singular (self s))))
         else Gettext (fst (render_token_list E (self s) (singular (self s)))))"
    by (simp add: chosen_call_def pluralizing_None Let_def)
  with first_lookup_chosen [of E nested s]
  show "first_lookup E nested s
        (if truthy (resolved_message_context E s)
         then Pgettext (resolved_message_context E s)
                (fst (render_token_list E (self s) (singular (self s))))
         else Gettext (fst (render_token_list E (self s) (singular (self s)))))"
    by simp
qed

text \<open>The theorem at four example blocks, one for each catalog function.\<close>

theorem render_selects_catalog_function_witness:
  "first_lookup std_engine False (shop_state items_node)
     (Ngettext ''%(n)s item'' ''%(n)s items'' (PyInt 3)) \<and>
   first_lookup std_engine False
     (shop_state (items_node\<lparr>message_context := Some (FilterExpression ''section'')\<rparr>))
     (Npgettext (PyText (Str ''menu'')) ''%(n)s item'' ''%(n)s items'' (PyInt 3)) \<and>
   first_lookup std_engine False (shop_state hello_node) (Gettext ''Hello %(name)s'') \<and>
   first_lookup std_engine False
     (shop_state (hello_node\<lparr>message_context := Some (FilterExpression ''section'')\<rparr>))
     (Pgettext (PyText (Str ''menu'')) ''Hello %(name)s'')"
proof -
  have r: "resolve std_engine = std_resolve []"
    by (simp add: std_engine_def)
  have a: "first_lookup std_engine False (shop_state items_node)
     (Ngettext ''%(n)s item'' ''%(n)s items'' (PyInt 3))"
    using render_selects_catalog_function [of "shop_state items_node" std_engine False]
    by (simp add: shop_state_def items_node_def resolved_message_context_def
        with_scope_def render_token_list_def r quoted_def is_digit_def)
  have b: "first_lookup std_engine False
     (shop_state (items_node\<lparr>message_context := Some (FilterExpression ''section'')\<rparr>))
     (Npgettext (PyText (Str ''menu'')) ''%(n)s item'' ''%(n)s items'' (PyInt 3))"
    using render_selects_catalog_function
      [of "shop_state (items_node\<lparr>message_context := Some (FilterExpression ''section'')\<rparr>)"
          std_engine False]
    by (simp add: shop_state_def items_node_def resolved_message_context_def
        with_scope_def render_token_list_def r quoted_def is_digit_def)
  have c: "first_lookup std_engine False (shop_state hello_node) (Gettext ''Hello %(name)s'')"
    using render_selects_catalog_function [of "shop_state hello_node" std_engine False]
    by (simp add: shop_state_def hello_node_def resolved_message_context_def
        render_token_list_def r quoted_def is_digit_def)
  have d: "first_lookup std_engine False
     (shop_state (hello_node\<lparr>message_context := Some (FilterExpression ''section'')\<rparr>))
     (Pgettext (PyText (Str ''menu'')) ''Hello %(name)s'')"
    using render_selects_catalog_function
      [of "shop_state (hello_node\<lparr>message_context := Some (FilterExpression ''section'')\<rparr>)"
          std_engine False]
    by (simp add: shop_state_def hello_node_def resolved_message_context_def
        render_token_list_def r quoted_def is_digit_def)
  from a b c d show ?thesis by simp
qed

subsection \<open>The result and asvar\<close>

text \<open>
  Claim C6 at the first example with \<^verbatim>\<open>asvar greeting\<close>. Rendered with no language active,
  the substitution succeeds at once: the tag emits the empty string and \<open>greeting\<close> is bound
  to \<open>Hello Bob\<close>. Rendered in German, the first substitution raises a \<^verbatim>\<open>KeyError\<close> and the
  nested render binds \<open>greeting\<close> to \<open>Hello Bob\<close> and returns the empty string; the outer
  render then takes that return value for the result and stores it under \<open>greeting\<close>
  again. After the render \<open>greeting\<close> is bound to the empty string, not to the formatted
  result.
\<close>

theorem asvar_after_retry_is_empty:
  "fst (render std_engine False (greeting_state None)) = Inr [] \<and>
   ctx (snd (render std_engine False (greeting_state None))) =
     [[''name'' \<mapsto> PyText (Str ''Bob''), ''greeting'' \<mapsto> PyText (Str ''Hello Bob'')]] \<and>
   fst (render std_engine False (greeting_state (Some ''de''))) = Inr [] \<and>
   ctx (snd (render std_engine False (greeting_state (Some ''de'')))) =
     [[''name'' \<mapsto> PyText (Str ''Bob''), ''greeting'' \<mapsto> PyText (Str [])]]"
proof -
  have c: "caught (KeyError ''nmae'')" by simp
  have "render std_engine False (greeting_state (Some ''de'')) =
     (Inr [],
      \<lparr>ctx = [[''name'' \<mapsto> PyText (Str ''Bob''), ''greeting'' \<mapsto> PyText (Str [])]],
       active = Some ''de'',
       trace = [Push Map.empty, Lookup (Some ''de'') (Gettext ''Hello %(name)s''), Pop Map.empty,
                Push Map.empty, Lookup None (Gettext ''Hello %(name)s''), Pop Map.empty],
       self = hello_node\<lparr>asvar := Some ''greeting''\<rparr>\<rparr>)"
    using render_retry_eq [OF greeting_prepare hello_german c, where t1 = "[]"]
          greeting_direct [where nested = True]
    by (simp add: greeting_state_def override_enter_def override_exit_def)
  then show ?thesis
    using greeting_direct [where nested = False and t = "[]"]
    by (simp add: greeting_state_def)
qed

subsection \<open>The scope of a render\<close>

text \<open>
  Claim C8 says that a successful render pushes exactly one scope. As stated it does not
  hold: the German render of the first example succeeds through the retry, and its trace
  has two pushes and two pops, one pair for each attempt.
\<close>

theorem retry_pushes_two_scopes:
  "fst (render std_engine False hello_state) = Inr ''Hello Bob'' \<and>
   trace (snd (render std_engine False hello_state)) =
     [Push Map.empty, Lookup (Some ''de'') (Gettext ''Hello %(name)s''), Pop Map.empty,
      Push Map.empty, Lookup None (Gettext ''Hello %(name)s''), Pop Map.empty]"
  by (simp add: hello_render_retry)

text \<open>
  Claim C8, counting one scope for each attempt. When a render returns, the node is as it
  was; the trace of the render is one attempt, or two attempts when the render retried, and
  an attempt pushes one scope with the \<^verbatim>\<open>with\<close> bindings, makes its catalog lookup and pops
  that scope, which then holds the \<^verbatim>\<open>with\<close> bindings and, when the block pluralizes, the
  counter; the context after the render is the context before it, except that with
  \<^verbatim>\<open>asvar\<close> the top dictionary has a binding for that name.
\<close>

theorem render_scope_frame:
  assumes "render E nested s = (Inr out, s')"
  shows "self s' = self s \<and>
         (\<exists>c. trace s' =
                trace s @ [Push (with_scope E s), Lookup (active s) c, Pop (block_scope E s)] \<or>
              trace s' =
                trace s @ [Push (with_scope E s), Lookup (active s) c, Pop (block_scope E s),
                           Push (with_scope E s), Lookup None c, Pop (block_scope E s)]) \<and>
         (\<not> truthy_name (asvar (self s)) \<and> ctx s' = ctx s \<or>
          (\<exists>a d r v. asvar (self s) = Some a \<and> a \<noteq> [] \<and> out = [] \<and>
             ctx s = d # r \<and> ctx s' = d(a \<mapsto> PyText (Str v)) # r))"
proof -
  note c = render_success_cases [OF assms]
  from render_always [of E nested s] assms have a: "self s' = self s" by simp
  from c have "trace s' =
                trace s @ [Push (with_scope E s), Lookup (active s) (chosen_call E s),
                           Pop (block_scope E s)] \<or>
              trace s' =
                trace s @ [Push (with_scope E s), Lookup (active s) (chosen_call E s),
                           Pop (block_scope E s),
                           Push (with_scope E s), Lookup None (chosen_call E s),
                           Pop (block_scope E s)]"
    by (auto simp: attempt_events_def)
  then have b: "\<exists>c. trace s' =
                trace s @ [Push (with_scope E s), Lookup (active s) c, Pop (block_scope E s)] \<or>
              trace s' =
                trace s @ [Push (with_scope E s), Lookup (active s) c, Pop (block_scope E s),
                           Push (with_scope E s), Lookup None c, Pop (block_scope E s)]"
    by blast
  have d: "\<not> truthy_name (asvar (self s)) \<and> ctx s' = ctx s \<or>
          (\<exists>a d r v. asvar (self s) = Some a \<and> a \<noteq> [] \<and> out = [] \<and>
             ctx s = d # r \<and> ctx s' = d(a \<mapsto> PyText (Str v)) # r)"
  proof (cases "truthy_name (asvar (self s))")
    case False
    with c show ?thesis by auto
  next
    case True
    with c obtain a v where av: "asvar (self s) = Some a" "a \<noteq> []" "out = []"
      "ctx_setitem a (PyText (Str v)) (ctx s) = Inr (ctx s')"
      by auto
    from ctx_setitem_Inr [OF av(4)] obtain d r where
      "ctx s = d # r" "ctx s' = d(a \<mapsto> PyText (Str v)) # r"
      by blast
    with av show ?thesis by blast
  qed
  from a b d show ?thesis by simp
qed

text \<open>The theorem at the first example with \<^verbatim>\<open>asvar greeting\<close> and no language active.\<close>

theorem render_scope_frame_witness:
  "self (snd (render std_engine False (greeting_state None))) = self (greeting_state None) \<and>
   trace (snd (render std_engine False (greeting_state None))) =
     [Push Map.empty, Lookup None (Gettext ''Hello %(name)s''), Pop Map.empty] \<and>
   ctx (snd (render std_engine False (greeting_state None))) =
     [[''name'' \<mapsto> PyText (Str ''Bob''), ''greeting'' \<mapsto> PyText (Str ''Hello Bob'')]]"
proof -
  have r: "render std_engine False (greeting_state None) =
     (Inr [], snd (render std_engine False (greeting_state None)))"
    using greeting_direct [where nested = False and t = "[]"]
    by (simp add: greeting_state_def)
  from render_scope_frame [OF r]
  have "self (snd (render std_engine False (greeting_state None))) = self (greeting_state None)"
    by simp
  with greeting_direct [where nested = False and t = "[]"]
  show ?thesis
    by (simp add: greeting_state_def)
qed

subsection \<open>A count binding with an empty plural body\<close>



section \<open>Properties of do_block_translate\<close>

subsection \<open>The closing tag\<close>

text \<open>
  Claim C2 at the template \<^verbatim>\<open>{% blocktranslate %}endblocktranslate\<close>, which has no closing
  tag. The loop over the parser's tokens ends because no token is left, the variable
  \<^verbatim>\<open>token\<close> still holds the text token, and the check compares the contents of that token,
  whatever its type, with the name of the closing tag: the parse succeeds.
\<close>

theorem text_token_closes_block:
  "do_block_translate std_compiler
     [\<lparr>token_type = TEXT, contents = ''endblocktranslate''\<rparr>]
     \<lparr>token_type = BLOCK, contents = ''blocktranslate''\<rparr> =
   Inr (\<lparr>extra_context = [],
         singular = [\<lparr>token_type = TEXT, contents = ''endblocktranslate''\<rparr>],
         plural = Some [], countervar = None, counter = None, message_context = None,
         trimmed = False, asvar = None, tag_name = ''blocktranslate''\<rparr>, [])"
  by (simp add: do_block_translate_def std_split_contents_def is_space_def
      empty_options_def close_block_def)

subsection \<open>The count option\<close>

text \<open>
  Claim C3 at the tag \<^verbatim>\<open>{% blocktranslate count a=x a=y %}\<close>. Two keyword bindings follow
  \<^verbatim>\<open>count\<close>; they bind the same name, the dictionary of the bindings has one entry, and
  the parse succeeds with the later expression as the counter.
\<close>

theorem count_accepts_two_bindings_of_one_name:
  "do_block_translate std_compiler
     [\<lparr>token_type = TEXT, contents = ''one''\<rparr>,
      \<lparr>token_type = BLOCK, contents = ''plural''\<rparr>,
      \<lparr>token_type = TEXT, contents = ''many''\<rparr>,
      \<lparr>token_type = BLOCK, contents = ''endblocktranslate''\<rparr>]
     \<lparr>token_type = BLOCK, contents = ''blocktranslate count a=x a=y''\<rparr> =
   Inr (\<lparr>extra_context = [],
         singular = [\<lparr>token_type = TEXT, contents = ''one''\<rparr>],
         plural = Some [\<lparr>token_type = TEXT, contents = ''many''\<rparr>],
         countervar = Some ''a'', counter = Some (FilterExpression ''y''),
         message_context = None, trimmed = False, asvar = None,
         tag_name = ''blocktranslate''\<rparr>, [])"
  by (simp add: do_block_translate_def std_split_contents_def is_space_def
      empty_options_def close_block_def parse_options.simps(2) option_in_def
      std_token_kwargs_def std_compile_filter_def)

subsection \<open>The with option\<close>




section \<open>Percent signs in translate and blocktranslate\<close>




end
